theory Spec2Isabelle
  imports Complex_Main "HOL-Library.Word"
begin

section \<open>Strings and regular expressions of the Python library\<close>

text \<open>
  The source works on text with \<^verbatim>\<open>str\<close> methods and the \<^verbatim>\<open>re\<close> module. The
  functions below model the operations it calls, on ASCII text. A regular expression is a
  term of \<open>regex\<close>; \<open>rmatch\<close> lists the ways it can match at one position in the order in
  which a backtracking matcher tries them, so the head of the list is the match that
  \<^verbatim>\<open>re\<close> reports. Repetition is needed on character classes only.
\<close>

text \<open>A value of a dictionary: a string, a list, a tuple or \<^verbatim>\<open>None\<close>.\<close>

datatype pyval = PStr string | PList "pyval list" | PTuple "pyval list" | PNone

type_synonym pydict = "(string \<times> pyval) list"

definition is_space :: "char \<Rightarrow> bool" where
  "is_space c = (let n = (of_char c :: nat) in (9 \<le> n \<and> n \<le> 13) \<or> (28 \<le> n \<and> n \<le> 32))"

definition is_digit :: "char \<Rightarrow> bool" where
  "is_digit c = (let n = (of_char c :: nat) in 48 \<le> n \<and> n \<le> 57)"

definition is_upper :: "char \<Rightarrow> bool" where
  "is_upper c = (let n = (of_char c :: nat) in 65 \<le> n \<and> n \<le> 90)"

definition is_lower :: "char \<Rightarrow> bool" where
  "is_lower c = (let n = (of_char c :: nat) in 97 \<le> n \<and> n \<le> 122)"

definition is_word :: "char \<Rightarrow> bool" where
  "is_word c \<longleftrightarrow> is_lower c \<or> is_upper c \<or> is_digit c \<or> c = CHR ''_''"

definition lower_char :: "char \<Rightarrow> char" where
  "lower_char c = (if is_upper c then char_of (of_char c + (32 :: nat)) else c)"

definition upper_char :: "char \<Rightarrow> char" where
  "upper_char c = (if is_lower c then char_of (of_char c - (32 :: nat)) else c)"

definition lower :: "string \<Rightarrow> string" where
  "lower s = map lower_char s"

definition strip :: "string \<Rightarrow> string" where
  "strip s = rev (dropWhile is_space (rev (dropWhile is_space s)))"

definition starts_with :: "string \<Rightarrow> string \<Rightarrow> bool" where
  "starts_with sub s \<longleftrightarrow> take (length sub) s = sub"




function str_replace :: "string \<Rightarrow> string \<Rightarrow> string \<Rightarrow> string" where
  \<comment> \<open>\<^verbatim>\<open>s.replace(old, new)\<close>\<close>
  "str_replace old new s =
     (if old = [] then new @ concat (map (\<lambda>c. c # new) s)
      else if s = [] then []
      else if starts_with old s then new @ str_replace old new (drop (length old) s)
      else hd s # str_replace old new (tl s))"
  by pat_completeness auto
termination
  by (relation "measure (\<lambda>(old, new, s). length s)") auto

declare str_replace.simps [simp del]

fun split_ws_aux :: "string \<Rightarrow> string \<Rightarrow> string list" where
  "split_ws_aux w [] = (if w = [] then [] else [w])"
| "split_ws_aux w (c # s) =
     (if is_space c then (if w = [] then split_ws_aux [] s else w # split_ws_aux [] s)
      else split_ws_aux (w @ [c]) s)"

definition split_ws :: "string \<Rightarrow> string list" where
  \<comment> \<open>\<^verbatim>\<open>s.split()\<close>\<close>
  "split_ws s = split_ws_aux [] s"

datatype cset = CChar char | CRange char char | CSpace | CDigit | CWord | CAny

fun in_cset :: "cset \<Rightarrow> char \<Rightarrow> bool" where
  "in_cset (CChar d) c = (c = d)"
| "in_cset (CRange lo hi) c = ((of_char lo :: nat) \<le> of_char c \<and> (of_char c :: nat) \<le> of_char hi)"
| "in_cset CSpace c = is_space c"
| "in_cset CDigit c = is_digit c"
| "in_cset CWord c = is_word c"
| "in_cset CAny c = (c \<noteq> CHR 0x0A)"

definition cls_match :: "bool \<Rightarrow> cset list \<Rightarrow> char \<Rightarrow> bool" where
  \<comment> \<open>the flag is \<^verbatim>\<open>re.IGNORECASE\<close>\<close>
  "cls_match ic cs c \<longleftrightarrow>
     list_ex (\<lambda>k. in_cset k c) cs \<or>
     (ic \<and> (list_ex (\<lambda>k. in_cset k (lower_char c)) cs \<or>
            list_ex (\<lambda>k. in_cset k (upper_char c)) cs))"

datatype regex =
    Eps
  | Cls "cset list"
  | Seq regex regex
  | Alt regex regex
  | Rep "cset list" nat "nat option" bool
  | Opt regex
  | Grp nat regex
  | WordB
  | Eol

text \<open>
  \<open>Rep cs m n g\<close> is a class repeated at least \<open>m\<close> and at most \<open>n\<close> times, greedy when
  \<open>g\<close> holds and lazy otherwise; \<open>Grp k r\<close> is capture group \<open>k\<close>; \<open>WordB\<close> is \<^verbatim>\<open>\b\<close> and
  \<open>Eol\<close> is \<^verbatim>\<open>$\<close>. A matcher state is the character before the position, the rest of the
  text, and the groups captured so far (latest first).
\<close>

type_synonym mstate = "char option \<times> string \<times> (nat \<times> string) list"

definition word_before :: "char option \<Rightarrow> bool" where
  "word_before p = (case p of None \<Rightarrow> False | Some c \<Rightarrow> is_word c)"

definition word_after :: "string \<Rightarrow> bool" where
  "word_after r = (case r of [] \<Rightarrow> False | c # _ \<Rightarrow> is_word c)"

definition last_char :: "char option \<Rightarrow> string \<Rightarrow> char option" where
  "last_char p consumed = (if consumed = [] then p else Some (last consumed))"

definition rep_match ::
  "bool \<Rightarrow> cset list \<Rightarrow> nat \<Rightarrow> nat option \<Rightarrow> bool \<Rightarrow> mstate \<Rightarrow> mstate list" where
  "rep_match ic cs mn mx greedy s =
     (case s of (p, r, g) \<Rightarrow>
        (let run = length (takeWhile (cls_match ic cs) r);
             k = (case mx of None \<Rightarrow> run | Some m \<Rightarrow> min m run);
             counts = (if greedy then rev [mn..<Suc k] else [mn..<Suc k])
         in map (\<lambda>j. (last_char p (take j r), drop j r, g)) counts))"

fun rmatch :: "bool \<Rightarrow> regex \<Rightarrow> mstate \<Rightarrow> mstate list" where
  "rmatch ic Eps s = [s]"
| "rmatch ic (Cls cs) s =
     (case s of (p, r, g) \<Rightarrow>
        (case r of [] \<Rightarrow> [] | c # r' \<Rightarrow> if cls_match ic cs c then [(Some c, r', g)] else []))"
| "rmatch ic (Seq a b) s = concat (map (rmatch ic b) (rmatch ic a s))"
| "rmatch ic (Alt a b) s = rmatch ic a s @ rmatch ic b s"
| "rmatch ic (Rep cs mn mx greedy) s = rep_match ic cs mn mx greedy s"
| "rmatch ic (Opt a) s = rmatch ic a s @ [s]"
| "rmatch ic (Grp n a) s =
     (case s of (p, r, g) \<Rightarrow>
        map (\<lambda>(p', r', g'). (p', r', (n, take (length r - length r') r) # g')) (rmatch ic a s))"
| "rmatch ic WordB s =
     (case s of (p, r, g) \<Rightarrow> if word_before p \<noteq> word_after r then [s] else [])"
| "rmatch ic Eol s =
     (case s of (p, r, g) \<Rightarrow> if r = [] \<or> r = [CHR 0x0A] then [s] else [])"

definition lit :: "string \<Rightarrow> regex" where
  "lit l = foldr (\<lambda>c r. Seq (Cls [CChar c]) r) l Eps"

definition seqs :: "regex list \<Rightarrow> regex" where
  "seqs rs = foldr Seq rs Eps"

fun alts :: "regex list \<Rightarrow> regex" where
  "alts [] = Eps"
| "alts [r] = r"
| "alts (r # rs) = Alt r (alts rs)"

definition words :: "string list \<Rightarrow> regex" where
  \<comment> \<open>an alternation of literal phrases, \<^verbatim>\<open>(a|b|c)\<close>\<close>
  "words ws = alts (map lit ws)"

definition bounded :: "regex \<Rightarrow> regex" where
  \<comment> \<open>\<^verbatim>\<open>\b...\b\<close>\<close>
  "bounded r = Seq WordB (Seq r WordB)"

definition ws1 :: regex where
  \<comment> \<open>\<^verbatim>\<open>\s+\<close>\<close>
  "ws1 = Rep [CSpace] 1 None True"

fun search_from :: "bool \<Rightarrow> regex \<Rightarrow> char option \<Rightarrow> string \<Rightarrow> (string \<times> mstate) option" where
  "search_from ic rx p [] =
     (case rmatch ic rx (p, [], []) of [] \<Rightarrow> None | m # _ \<Rightarrow> Some ([], m))"
| "search_from ic rx p (c # r) =
     (case rmatch ic rx (p, c # r, []) of
        [] \<Rightarrow> search_from ic rx (Some c) r
      | m # _ \<Rightarrow> Some (c # r, m))"

definition re_search :: "bool \<Rightarrow> regex \<Rightarrow> string \<Rightarrow> (string \<times> mstate) option" where
  \<comment> \<open>the leftmost match: the text from its start, and the state at its end\<close>
  "re_search ic rx text = search_from ic rx None text"

definition re_found :: "bool \<Rightarrow> regex \<Rightarrow> string \<Rightarrow> bool" where
  "re_found ic rx text \<longleftrightarrow> re_search ic rx text \<noteq> None"

definition group :: "nat \<Rightarrow> mstate \<Rightarrow> string option" where
  \<comment> \<open>\<^verbatim>\<open>match.group(n)\<close>, \<open>None\<close> when the group took no part in the match\<close>
  "group n m = (case m of (p, r, g) \<Rightarrow> map_of g n)"

definition matched :: "string \<times> mstate \<Rightarrow> string" where
  \<comment> \<open>\<^verbatim>\<open>match.group(0)\<close>\<close>
  "matched sm = (case sm of (start, (p, r, g)) \<Rightarrow> take (length start - length r) start)"

fun str_nat :: "nat \<Rightarrow> string" where
  "str_nat n = (if n < 10 then [char_of (48 + n)] else str_nat (n div 10) @ [char_of (48 + n mod 10)])"

declare str_nat.simps [simp del]


text \<open>Exceptions are values: a function that can raise returns \<open>py_exception + 'a\<close>.\<close>

datatype py_exception =
    TypeError string | RuntimeError string | AttributeError string | OtherError string

definition str_exception :: "py_exception \<Rightarrow> string" where
  \<comment> \<open>\<^verbatim>\<open>str(e)\<close>: the message\<close>
  "str_exception e =
     (case e of TypeError s \<Rightarrow> s | RuntimeError s \<Rightarrow> s | AttributeError s \<Rightarrow> s | OtherError s \<Rightarrow> s)"


text \<open>A dictionary with string keys, in insertion order: \<^verbatim>\<open>d[k] = v\<close> and \<^verbatim>\<open>d.get(k)\<close>.\<close>

fun dict_set :: "('k \<times> 'v) list \<Rightarrow> 'k \<Rightarrow> 'v \<Rightarrow> ('k \<times> 'v) list" where
  "dict_set [] k v = [(k, v)]"
| "dict_set ((k', v') # d) k v = (if k' = k then (k, v) # d else (k', v') # dict_set d k v)"

definition dict_get :: "('k \<times> 'v) list \<Rightarrow> 'k \<Rightarrow> 'v option" where
  "dict_get d k = map_of d k"

definition dict_update :: "('k \<times> 'v) list \<Rightarrow> ('k \<times> 'v) list \<Rightarrow> ('k \<times> 'v) list" where
  \<comment> \<open>\<^verbatim>\<open>d.update(e)\<close>\<close>
  "dict_update d e = foldl (\<lambda>acc (k, v). dict_set acc k v) d e"

definition dict_has :: "('k \<times> 'v) list \<Rightarrow> 'k \<Rightarrow> bool" where
  \<comment> \<open>\<^verbatim>\<open>k in d\<close>\<close>
  "dict_has d k \<longleftrightarrow> k \<in> set (map fst d)"

definition dict_del :: "('k \<times> 'v) list \<Rightarrow> 'k \<Rightarrow> ('k \<times> 'v) list" where
  \<comment> \<open>\<^verbatim>\<open>del d[k]\<close>\<close>
  "dict_del d k = filter (\<lambda>(k', v). k' \<noteq> k) d"

text \<open>
  \<^verbatim>\<open>re.findall\<close> and \<^verbatim>\<open>re.sub\<close> scan the text from the left and resume after each
  match. After a match of the empty string the scan moves one character on; none of the
  source's patterns matches the empty string.
\<close>

function findall_from :: "bool \<Rightarrow> regex \<Rightarrow> char option \<Rightarrow> string \<Rightarrow> (string \<times> mstate) list" where
  "findall_from ic rx p r =
     (case rmatch ic rx (p, r, []) of
        [] \<Rightarrow> (case r of [] \<Rightarrow> [] | c # r' \<Rightarrow> findall_from ic rx (Some c) r')
      | m # _ \<Rightarrow>
          (r, m) #
          (case m of (p', r', g) \<Rightarrow>
             if length r' < length r then findall_from ic rx p' r'
             else (case r of [] \<Rightarrow> [] | c # r'' \<Rightarrow> findall_from ic rx (Some c) r'')))"
  by pat_completeness auto
termination
  by (relation "measure (\<lambda>(ic, rx, p, r). length r)") auto

declare findall_from.simps [simp del]

definition findall_item :: "nat \<Rightarrow> string \<times> mstate \<Rightarrow> pyval" where
  \<comment> \<open>what \<^verbatim>\<open>findall\<close> lists for a match of a pattern with \<open>n\<close> groups\<close>
  "findall_item n sm =
     (let grp = (\<lambda>k. case group k (snd sm) of None \<Rightarrow> [] | Some s \<Rightarrow> s)
      in if n = 0 then PStr (matched sm)
         else if n = 1 then PStr (grp 1)
         else PTuple (map (\<lambda>k. PStr (grp k)) [1..<Suc n]))"

definition re_findall :: "bool \<Rightarrow> regex \<Rightarrow> nat \<Rightarrow> string \<Rightarrow> pyval list" where
  "re_findall ic rx n text = map (findall_item n) (findall_from ic rx None text)"

function sub_from :: "bool \<Rightarrow> regex \<Rightarrow> string \<Rightarrow> char option \<Rightarrow> string \<Rightarrow> string" where
  "sub_from ic rx repl p r =
     (case rmatch ic rx (p, r, []) of
        [] \<Rightarrow> (case r of [] \<Rightarrow> [] | c # r' \<Rightarrow> c # sub_from ic rx repl (Some c) r')
      | m # _ \<Rightarrow>
          repl @
          (case m of (p', r', g) \<Rightarrow>
             if length r' < length r then sub_from ic rx repl p' r'
             else (case r of [] \<Rightarrow> [] | c # r'' \<Rightarrow> c # sub_from ic rx repl (Some c) r'')))"
  by pat_completeness auto
termination
  by (relation "measure (\<lambda>(ic, rx, repl, p, r). length r)") auto

declare sub_from.simps [simp del]

definition re_sub :: "bool \<Rightarrow> regex \<Rightarrow> string \<Rightarrow> string \<Rightarrow> string" where
  "re_sub ic rx repl text = sub_from ic rx repl None text"

definition join :: "string \<Rightarrow> string list \<Rightarrow> string" where
  \<comment> \<open>\<^verbatim>\<open>sep.join(xs)\<close>\<close>
  "join sep xs = (case xs of [] \<Rightarrow> [] | x # rest \<Rightarrow> x @ concat (map (\<lambda>y. sep @ y) rest))"

section \<open>Digests of the Python library\<close>

text \<open>
  \<^verbatim>\<open>hashlib.md5(s.encode()).hexdigest()\<close> and \<^verbatim>\<open>hashlib.sha256(s.encode()).hexdigest()\<close>
  on ASCII text, following RFC 1321 and FIPS 180-4 (constants in decimal): the bytes of the text are padded to a
  multiple of 64, cut into blocks of sixteen 32-bit words, and each block is folded into
  the running state.
\<close>

type_synonym w32 = "32 word"

definition pad_length :: "nat \<Rightarrow> nat" where
  \<comment> \<open>the number of zero bytes between the 0x80 byte and the 8 length bytes\<close>
  "pad_length n = (119 - n mod 64) mod 64"

definition bytes_le :: "nat \<Rightarrow> nat \<Rightarrow> nat list" where
  \<comment> \<open>the \<open>k\<close> low bytes of a number, least significant first\<close>
  "bytes_le k n = map (\<lambda>i. (n div 256 ^ i) mod 256) [0..<k]"


definition word_le :: "nat list \<Rightarrow> w32" where
  "word_le bs = of_nat (foldr (\<lambda>b acc. b + 256 * acc) bs 0)"


fun chunks :: "nat \<Rightarrow> nat \<Rightarrow> 'a list \<Rightarrow> 'a list list" where
  \<comment> \<open>the first \<open>k\<close> consecutive pieces of length \<open>n\<close>\<close>
  "chunks n 0 xs = []"
| "chunks n (Suc k) xs = take n xs # chunks n k (drop n xs)"

definition blocks :: "(nat list \<Rightarrow> w32) \<Rightarrow> nat list \<Rightarrow> w32 list list" where
  "blocks to_word bytes =
     map (\<lambda>block. map to_word (chunks 4 16 block)) (chunks 64 (length bytes div 64) bytes)"

definition hex_digit :: "nat \<Rightarrow> char" where
  "hex_digit n = (if n < 10 then char_of (48 + n) else char_of (87 + n))"

definition hex_bytes :: "nat list \<Rightarrow> string" where
  "hex_bytes bs = concat (map (\<lambda>b. [hex_digit (b div 16), hex_digit (b mod 16)]) bs)"

definition md5_K :: "w32 list" where
  "md5_K =
     [3614090360, 3905402710, 606105819, 3250441966, 4118548399, 1200080426,
      2821735955, 4249261313, 1770035416, 2336552879, 4294925233, 2304563134,
      1804603682, 4254626195, 2792965006, 1236535329, 4129170786, 3225465664,
      643717713, 3921069994, 3593408605, 38016083, 3634488961, 3889429448,
      568446438, 3275163606, 4107603335, 1163531501, 2850285829, 4243563512,
      1735328473, 2368359562, 4294588738, 2272392833, 1839030562, 4259657740,
      2763975236, 1272893353, 4139469664, 3200236656, 681279174, 3936430074,
      3572445317, 76029189, 3654602809, 3873151461, 530742520, 3299628645,
      4096336452, 1126891415, 2878612391, 4237533241, 1700485571, 2399980690,
      4293915773, 2240044497, 1873313359, 4264355552, 2734768916, 1309151649,
      4149444226, 3174756917, 718787259, 3951481745]"

definition md5_s :: "nat list" where
  "md5_s =
     [7, 12, 17, 22, 7, 12, 17, 22, 7, 12, 17, 22, 7, 12, 17, 22,
      5, 9, 14, 20, 5, 9, 14, 20, 5, 9, 14, 20, 5, 9, 14, 20,
      4, 11, 16, 23, 4, 11, 16, 23, 4, 11, 16, 23, 4, 11, 16, 23,
      6, 10, 15, 21, 6, 10, 15, 21, 6, 10, 15, 21, 6, 10, 15, 21]"

definition md5_step :: "w32 list \<Rightarrow> nat \<Rightarrow> w32 \<times> w32 \<times> w32 \<times> w32 \<Rightarrow> w32 \<times> w32 \<times> w32 \<times> w32" where
  "md5_step M i st =
     (case st of (A, B, C, D) \<Rightarrow>
        (let (F, g) =
               (if i < 16 then (or (and B C) (and (not B) D), i)
                else if i < 32 then (or (and D B) (and (not D) C), (5 * i + 1) mod 16)
                else if i < 48 then (xor B (xor C D), (3 * i + 5) mod 16)
                else (xor C (or B (not D)), (7 * i) mod 16));
             F' = F + A + md5_K ! i + M ! g
         in (D, B + word_rotl (md5_s ! i) F', B, C)))"

definition md5_block :: "w32 \<times> w32 \<times> w32 \<times> w32 \<Rightarrow> w32 list \<Rightarrow> w32 \<times> w32 \<times> w32 \<times> w32" where
  "md5_block h M =
     (case (h, foldl (\<lambda>st i. md5_step M i st) h [0..<64]) of
        ((a0, b0, c0, d0), (A, B, C, D)) \<Rightarrow> (a0 + A, b0 + B, c0 + C, d0 + D))"

definition md5_hexdigest :: "string \<Rightarrow> string" where
  "md5_hexdigest s =
     (let msg = map of_char s;
          padded = msg @ [128] @ replicate (pad_length (length msg)) 0
                     @ bytes_le 8 (8 * length msg)
      in case foldl md5_block (1732584193, 4023233417, 2562383102, 271733878)
                (blocks word_le padded) of
           (a, b, c, d) \<Rightarrow> hex_bytes (concat (map (\<lambda>w. bytes_le 4 (unat w)) [a, b, c, d])))"






section \<open>Data model of the intent classifier\<close>

text \<open>
  \<^verbatim>\<open>src/_python/src/ai/voice_classifier.py\<close>. Python floats are modelled as reals,
  Python strings as \<open>string\<close> (ASCII text), a \<^verbatim>\<open>Dict[str, Any]\<close> as an association
  list in insertion order.
\<close>

datatype CommandCategory =
    GENERAL_CONVERSATION
  | DOCUMENT_GENERATION
  | EMAIL_MANAGEMENT
  | CALENDAR_SCHEDULING
  | WEB_SEARCH
  | SYSTEM_CONTROL
  | FILE_MANAGEMENT
  | TASK_MANAGEMENT
  | WEATHER_INFO
  | NEWS_BRIEFING
  | CALCULATIONS
  | TRANSLATIONS
  | REMINDERS
  | UNKNOWN

datatype IntentConfidence = HIGH | MEDIUM | LOW | VERY_LOW

record ClassificationResult =
  category :: CommandCategory
  intent :: string
  confidence :: real
  parameters :: pydict
  context_used :: bool
  preprocessing_time :: real
  classification_time :: real
  suggestions :: "string list"
  raw_text :: string
  normalized_text :: string

definition confidence_level :: "ClassificationResult \<Rightarrow> IntentConfidence" where
  "confidence_level r =
     (if confidence r > 0.8 then HIGH
      else if confidence r > 0.5 then MEDIUM
      else if confidence r > 0.3 then LOW
      else VERY_LOW)"

definition requires_confirmation :: "ClassificationResult \<Rightarrow> bool" where
  "requires_confirmation r \<longleftrightarrow> confidence r < 0.7 \<or> category r = UNKNOWN"

section \<open>Intent classifier\<close>

text \<open>
  The pattern table of \<^verbatim>\<open>_initialize_command_patterns\<close>. Each category has one group
  of four patterns, four examples and its parameter names. The patterns are searched
  without regard to case; in the order of the source they are

  document generation:
  \<^verbatim>\<open>\b(create|generate|make|write)\s+(document|doc|pdf|report|letter|memo)\b\<close>,
  \<^verbatim>\<open>\bdocument\s+(about|for|on)\b\<close>, \<^verbatim>\<open>\bwrite\s+me\s+a\b\<close>,
  \<^verbatim>\<open>\bcreate\s+a\s+(pdf|word|doc)\b\<close>;

  email: \<^verbatim>\<open>\b(send|compose|write)\s+(email|mail|message)\b\<close>,
  \<^verbatim>\<open>\bemail\s+(to|about)\b\<close>, \<^verbatim>\<open>\bsend\s+.*\s+to\s+[\w@.]+\b\<close>,
  \<^verbatim>\<open>\bcompose\s+a\s+(message|mail)\b\<close>;

  calendar: \<^verbatim>\<open>\b(schedule|book|create|add)\s+(meeting|appointment|event)\b\<close>,
  \<^verbatim>\<open>\bmeet\s+with\b\<close>, \<^verbatim>\<open>\b(calendar|schedule)\s+(for|on)\b\<close>,
  \<^verbatim>\<open>\bset\s+up\s+a\s+(meeting|call)\b\<close>;

  web search: \<^verbatim>\<open>\b(search|find|look up|google)\s+(for|about)?\b\<close>,
  \<^verbatim>\<open>\bwhat\s+is\b\<close>, \<^verbatim>\<open>\bhow\s+to\b\<close>, \<^verbatim>\<open>\btell\s+me\s+about\b\<close>;

  system control: \<^verbatim>\<open>\b(open|close|launch|start|stop|quit)\s+(app|application|program)\b\<close>,
  \<^verbatim>\<open>\b(increase|decrease|set)\s+(volume|brightness)\b\<close>,
  \<^verbatim>\<open>\b(turn\s+(on|off)|enable|disable)\b\<close>, \<^verbatim>\<open>\bsystem\s+(restart|shutdown)\b\<close>;

  calculations: \<^verbatim>\<open>\b(calculate|compute|what\s+is)\s+[\d\+\-\*\/\s]+\b\<close>,
  \<^verbatim>\<open>\b\d+\s*[\+\-\*\/]\s*\d+\b\<close>, \<^verbatim>\<open>\bmath\s+(problem|calculation)\b\<close>,
  \<^verbatim>\<open>\bconvert\s+\d+\b\<close>;

  reminders: \<^verbatim>\<open>\b(remind|alert)\s+me\b\<close>, \<^verbatim>\<open>\bset\s+(reminder|alarm)\b\<close>,
  \<^verbatim>\<open>\bdont?\s+forget\b\<close>, \<^verbatim>\<open>\bremember\s+to\b\<close>;

  general conversation: \<^verbatim>\<open>\b(hello|hi|hey|good\s+(morning|afternoon|evening))\b\<close>,
  \<^verbatim>\<open>\bhow\s+are\s+you\b\<close>, \<^verbatim>\<open>\bwhat\s+can\s+you\s+do\b\<close>,
  \<^verbatim>\<open>\btell\s+me\s+a\s+(joke|story)\b\<close>.
\<close>

definition ws0 :: regex where
  \<comment> \<open>\<^verbatim>\<open>\s*\<close>\<close>
  "ws0 = Rep [CSpace] 0 None True"

definition phrase :: "string list \<Rightarrow> regex" where
  \<comment> \<open>literal words separated by \<^verbatim>\<open>\s+\<close>\<close>
  "phrase ws = (case ws of [] \<Rightarrow> Eps
                | w # rest \<Rightarrow> Seq (lit w) (seqs (map (\<lambda>v. Seq ws1 (lit v)) rest)))"

definition math_chars :: "cset list" where
  \<comment> \<open>\<^verbatim>\<open>\+\-\*\/\<close>\<close>
  "math_chars = [CChar CHR ''+'', CChar CHR ''-'', CChar CHR ''*'', CChar CHR ''/'']"

record pattern_group =
  patterns :: "regex list"
  examples :: "string list"
  group_parameters :: "string list"

definition command_patterns :: "CommandCategory \<rightharpoonup> pattern_group list" where
  "command_patterns =
     [DOCUMENT_GENERATION \<mapsto>
        [\<lparr>patterns =
            [bounded (seqs [words [''create'', ''generate'', ''make'', ''write''], ws1,
                            words [''document'', ''doc'', ''pdf'', ''report'', ''letter'', ''memo'']]),
             bounded (seqs [lit ''document'', ws1, words [''about'', ''for'', ''on'']]),
             bounded (phrase [''write'', ''me'', ''a'']),
             bounded (seqs [phrase [''create'', ''a''], ws1, words [''pdf'', ''word'', ''doc'']])],
          examples =
            [''create a document about artificial intelligence'',
             ''generate a PDF report on sales data'',
             ''write me a letter to the customer'',
             ''make a document for the meeting''],
          group_parameters = [''content_topic'', ''format'', ''template'', ''audience'']\<rparr>],
      EMAIL_MANAGEMENT \<mapsto>
        [\<lparr>patterns =
            [bounded (seqs [words [''send'', ''compose'', ''write''], ws1,
                            words [''email'', ''mail'', ''message'']]),
             bounded (seqs [lit ''email'', ws1, words [''to'', ''about'']]),
             bounded (seqs [lit ''send'', ws1, Rep [CAny] 0 None True, ws1, lit ''to'', ws1,
                            Rep [CWord, CChar CHR ''@'', CChar CHR ''.''] 1 None True]),
             bounded (seqs [phrase [''compose'', ''a''], ws1, words [''message'', ''mail'']])],
          examples =
            [''send an email to john@example.com'',
             ''compose a message about the project'',
             ''write an email to the team'',
             ''send mail to support''],
          group_parameters = [''recipient'', ''subject'', ''content'', ''priority'', ''attachments'']\<rparr>],
      CALENDAR_SCHEDULING \<mapsto>
        [\<lparr>patterns =
            [bounded (seqs [words [''schedule'', ''book'', ''create'', ''add''], ws1,
                            words [''meeting'', ''appointment'', ''event'']]),
             bounded (phrase [''meet'', ''with'']),
             bounded (seqs [words [''calendar'', ''schedule''], ws1, words [''for'', ''on'']]),
             bounded (seqs [phrase [''set'', ''up'', ''a''], ws1, words [''meeting'', ''call'']])],
          examples =
            [''schedule a meeting with the team'',
             ''book an appointment for tomorrow'',
             ''create an event for the conference'',
             ''meet with Sarah at 3 PM''],
          group_parameters = [''date_time'', ''duration'', ''attendees'', ''location'', ''agenda'']\<rparr>],
      WEB_SEARCH \<mapsto>
        [\<lparr>patterns =
            [bounded (seqs [words [''search'', ''find'', ''look up'', ''google''], ws1,
                            Opt (words [''for'', ''about''])]),
             bounded (phrase [''what'', ''is'']),
             bounded (phrase [''how'', ''to'']),
             bounded (phrase [''tell'', ''me'', ''about''])],
          examples =
            [''search for Python tutorials'',
             ''what is machine learning'',
             ''find information about climate change'',
             ''look up the weather forecast''],
          group_parameters = [''query'', ''search_type'', ''num_results'']\<rparr>],
      SYSTEM_CONTROL \<mapsto>
        [\<lparr>patterns =
            [bounded (seqs [words [''open'', ''close'', ''launch'', ''start'', ''stop'', ''quit''], ws1,
                            words [''app'', ''application'', ''program'']]),
             bounded (seqs [words [''increase'', ''decrease'', ''set''], ws1,
                            words [''volume'', ''brightness'']]),
             bounded (alts [seqs [lit ''turn'', ws1, words [''on'', ''off'']],
                            lit ''enable'', lit ''disable'']),
             bounded (seqs [lit ''system'', ws1, words [''restart'', ''shutdown'']])],
          examples =
            [''open the calculator app'',
             ''increase the volume'',
             ''turn off bluetooth'',
             ''close Safari''],
          group_parameters = [''action'', ''target'', ''value'']\<rparr>],
      CALCULATIONS \<mapsto>
        [\<lparr>patterns =
            [bounded (seqs [alts [lit ''calculate'', lit ''compute'', phrase [''what'', ''is'']], ws1,
                            Rep (CDigit # math_chars @ [CSpace]) 1 None True]),
             bounded (seqs [Rep [CDigit] 1 None True, ws0, Cls math_chars, ws0,
                            Rep [CDigit] 1 None True]),
             bounded (seqs [lit ''math'', ws1, words [''problem'', ''calculation'']]),
             bounded (seqs [lit ''convert'', ws1, Rep [CDigit] 1 None True])],
          examples =
            [''calculate 15 plus 27'',
             ''what is 100 divided by 4'',
             ''compute the square root of 64'',
             ''convert 100 USD to EUR''],
          group_parameters = [''expression'', ''operation'', ''units'']\<rparr>],
      REMINDERS \<mapsto>
        [\<lparr>patterns =
            [bounded (seqs [words [''remind'', ''alert''], ws1, lit ''me'']),
             bounded (seqs [lit ''set'', ws1, words [''reminder'', ''alarm'']]),
             bounded (seqs [lit ''don'', Opt (lit ''t''), ws1, lit ''forget'']),
             bounded (phrase [''remember'', ''to''])],
          examples =
            [''remind me to call mom'',
             ''set a reminder for the meeting'',
             ''don't forget to buy groceries'',
             ''alert me in 30 minutes''],
          group_parameters = [''task'', ''time'', ''frequency'', ''priority'']\<rparr>],
      GENERAL_CONVERSATION \<mapsto>
        [\<lparr>patterns =
            [bounded (alts [lit ''hello'', lit ''hi'', lit ''hey'',
                            seqs [lit ''good'', ws1, words [''morning'', ''afternoon'', ''evening'']]]),
             bounded (phrase [''how'', ''are'', ''you'']),
             bounded (phrase [''what'', ''can'', ''you'', ''do'']),
             bounded (seqs [phrase [''tell'', ''me'', ''a''], ws1, words [''joke'', ''story'']])],
          examples =
            [''hello there'',
             ''how are you doing'',
             ''what can you help me with'',
             ''tell me a joke''],
          group_parameters = [''greeting_type'', ''conversation_topic'']\<rparr>]]"

text \<open>
  \<^verbatim>\<open>preprocess_text\<close>: lower case, the filler words removed as whole words, the
  contractions replaced in the order of the table, runs of white space collapsed.
\<close>

definition filler_words :: "string list" where
  "filler_words =
     [''um'', ''uh'', ''ah'', ''like'', ''you know'', ''well'', ''so'', ''actually'',
      ''basically'', ''totally'', ''literally'', ''right'', ''okay'', ''alright'']"

definition contractions :: "(string \<times> string) list" where
  "contractions =
     [(''won't'', ''will not''), (''can't'', ''cannot''), (''n't'', '' not''),
      ('''re'', '' are''), ('''ve'', '' have''), ('''ll'', '' will''), ('''d'', '' would''),
      ('''m'', '' am''), (''it's'', ''it is''), (''that's'', ''that is'')]"

definition preprocess_text :: "string \<Rightarrow> string" where
  "preprocess_text text =
     (let text = strip (lower text);
          text = foldl (\<lambda>t filler. re_sub False (bounded (lit filler)) [] t) text filler_words;
          text = foldl (\<lambda>t (contraction, expansion). str_replace contraction expansion t)
                       text contractions
      in strip (re_sub False ws1 '' '' text))"

text \<open>
  \<^verbatim>\<open>extract_parameters\<close>. The parameter patterns, in the order of the source:
  \<^verbatim>\<open>\b[A-Za-z0-9._%+-]+@[A-Za-z0-9.-]+\.[A-Z|a-z]{2,}\b\<close> for the recipient;
  \<^verbatim>\<open>KEY\s+(.+?)(?:\s+to|\s+for|$)\<close> with the keys about, regarding, subject for the
  subject; \<^verbatim>\<open>\b(pdf|doc|docx|txt|markdown)\b\<close> for the format;
  \<^verbatim>\<open>KEY\s+(.+?)(?:\s+in|\s+for|$)\<close> with the keys about, on, document for the topic;
  the four date patterns; \<^verbatim>\<open>with\s+(.+?)(?:\s+at|\s+on|\s+for|$)\<close> for the attendees;
  \<^verbatim>\<open>KEY\s+(.+?)$\<close> for the query; \<^verbatim>\<open>[\d\+\-\*\/\(\)\.\s]+\<close> for the expression.
\<close>

definition captured_until :: "regex \<Rightarrow> string list \<Rightarrow> regex" where
  \<comment> \<open>\<^verbatim>\<open>KEY\s+(.+?)(?:\s+w1|\s+w2|$)\<close>\<close>
  "captured_until key stops =
     seqs [key, ws1, Grp 1 (Rep [CAny] 1 None False),
           alts (map (\<lambda>w. Seq ws1 (lit w)) stops @ [Eol])]"

definition first_group :: "regex list \<Rightarrow> string \<Rightarrow> string option" where
  \<comment> \<open>the loop over patterns that stops at the first match: its \<^verbatim>\<open>group(1).strip()\<close>\<close>
  "first_group rxs text =
     (case List.map_filter (\<lambda>rx. re_search True rx text) rxs of
        [] \<Rightarrow> None
      | sm # _ \<Rightarrow> Some (strip (case group 1 (snd sm) of None \<Rightarrow> [] | Some s \<Rightarrow> s)))"

definition alnum :: "cset list" where
  "alnum = [CRange CHR ''A'' CHR ''Z'', CRange CHR ''a'' CHR ''z'', CRange CHR ''0'' CHR ''9'']"

definition email_pattern :: regex where
  "email_pattern =
     bounded (seqs [Rep (alnum @ map CChar ''._%+-'') 1 None True, lit ''@'',
                    Rep (alnum @ map CChar ''.-'') 1 None True, lit ''.'',
                    Rep [CRange CHR ''A'' CHR ''Z'', CChar CHR ''|'', CRange CHR ''a'' CHR ''z'']
                        2 None True])"

definition time_patterns :: "(regex \<times> nat) list" where
  \<comment> \<open>each pattern with its number of groups\<close>
  "time_patterns =
     [(bounded (Grp 1 (alts [lit ''tomorrow'', lit ''today'', phrase [''next'', ''week''],
                             phrase [''next'', ''month'']])), 1),
      (bounded (seqs [Grp 1 (seqs [Rep [CDigit] 1 (Some 2) True, lit '':'',
                                   Rep [CDigit] 2 (Some 2) True]),
                      ws0, Opt (Grp 2 (words [''am'', ''pm'']))]), 2),
      (bounded (Grp 1 (words [''monday'', ''tuesday'', ''wednesday'', ''thursday'', ''friday'',
                              ''saturday'', ''sunday''])), 1),
      (bounded (seqs [Grp 1 (words [''january'', ''february'', ''march'', ''april'', ''may'',
                                    ''june'', ''july'', ''august'', ''september'', ''october'',
                                    ''november'', ''december'']),
                      ws1, Rep [CDigit] 1 (Some 2) True]), 1)]"

definition extract_parameters :: "string \<Rightarrow> CommandCategory \<Rightarrow> pydict" where
  "extract_parameters text c =
     (if c = EMAIL_MANAGEMENT then
        (let emails = re_findall False email_pattern 0 text;
             ps = (case emails of [] \<Rightarrow> [] | e # _ \<Rightarrow> [(''recipient'', e)])
         in case first_group [captured_until (lit ''about'') [''to'', ''for''],
                              captured_until (lit ''regarding'') [''to'', ''for''],
                              captured_until (lit ''subject'') [''to'', ''for'']] text of
              None \<Rightarrow> ps
            | Some s \<Rightarrow> dict_set ps ''subject'' (PStr s))
      else if c = DOCUMENT_GENERATION then
        (let ps = (case re_search True
                          (bounded (Grp 1 (words [''pdf'', ''doc'', ''docx'', ''txt'', ''markdown''])))
                          text of
                     None \<Rightarrow> []
                   | Some sm \<Rightarrow>
                       [(''format'', PStr (lower (case group 1 (snd sm) of None \<Rightarrow> [] | Some s \<Rightarrow> s)))])
         in case first_group [captured_until (lit ''about'') [''in'', ''for''],
                              captured_until (lit ''on'') [''in'', ''for''],
                              captured_until (lit ''document'') [''in'', ''for'']] text of
              None \<Rightarrow> ps
            | Some s \<Rightarrow> dict_set ps ''content_topic'' (PStr s))
      else if c = CALENDAR_SCHEDULING then
        (let ps = (case filter (\<lambda>matches. matches \<noteq> [])
                          (map (\<lambda>(rx, n). re_findall True rx n text) time_patterns) of
                     [] \<Rightarrow> []
                   | matches # _ \<Rightarrow> [(''date_time'', PList matches)])
         in case first_group [captured_until (lit ''with'') [''at'', ''on'', ''for'']] text of
              None \<Rightarrow> ps
            | Some s \<Rightarrow> dict_set ps ''attendees'' (PStr s))
      else if c = WEB_SEARCH then
        (case first_group [captured_until (phrase [''search'', ''for'']) [],
                           captured_until (lit ''find'') [],
                           captured_until (phrase [''look'', ''up'']) [],
                           captured_until (phrase [''what'', ''is'']) [],
                           captured_until (phrase [''tell'', ''me'', ''about'']) []] text of
           None \<Rightarrow> []
         | Some s \<Rightarrow> [(''query'', PStr s)])
      else if c = CALCULATIONS then
        (case re_findall False
                (Rep (CDigit # math_chars @ map CChar ''().'' @ [CSpace]) 1 None True) 0 text of
           [] \<Rightarrow> []
         | math_matches \<Rightarrow>
             [(''expression'',
               PStr (strip (join '' '' (map (\<lambda>v. case v of PStr s \<Rightarrow> s | _ \<Rightarrow> []) math_matches))))])
      else [])"

section \<open>Classification with cache and context\<close>

record Interaction =
  ia_timestamp :: real
  ia_user_input :: string
  ia_bot_response :: string
  ia_category :: string
  ia_parameters :: pydict

record ConversationContext =
  ctx_user_id :: string
  ctx_session_id :: string
  conversation_history :: "Interaction list"
  current_topic :: "string option"
  last_command_category :: "CommandCategory option"
  active_parameters :: pydict
  context_timestamp :: real
  preferences :: pydict

text \<open>
  The classifier object. The vectorizer is the TF-IDF model of an outside library:
  \<open>None\<close> until \<^verbatim>\<open>initialize\<close> has fitted it, and then the function that gives the
  cosine similarity of the vectors of two texts. Transforming with a vectorizer that is
  not fitted raises, which \<^verbatim>\<open>calculate_similarity_confidence\<close> turns into 0.
\<close>

record VoiceClassifier =
  vectorizer :: "(string \<Rightarrow> string \<Rightarrow> real) option"
  context_cache :: "string \<rightharpoonup> ConversationContext"
  classification_cache :: "string \<rightharpoonup> ClassificationResult"
  cache_ttl :: real
  total_classifications :: nat
  cache_hits :: nat
  classification_times :: "real list"

definition classifier_init :: VoiceClassifier where
  \<comment> \<open>the object that the constructor returns\<close>
  "classifier_init =
     \<lparr>vectorizer = None, context_cache = Map.empty, classification_cache = Map.empty,
      cache_ttl = 3600, total_classifications = 0, cache_hits = 0, classification_times = []\<rparr>"

definition category_value :: "CommandCategory \<Rightarrow> string" where
  "category_value c =
     (case c of
        GENERAL_CONVERSATION \<Rightarrow> ''general_conversation''
      | DOCUMENT_GENERATION \<Rightarrow> ''document_generation''
      | EMAIL_MANAGEMENT \<Rightarrow> ''email_management''
      | CALENDAR_SCHEDULING \<Rightarrow> ''calendar_scheduling''
      | WEB_SEARCH \<Rightarrow> ''web_search''
      | SYSTEM_CONTROL \<Rightarrow> ''system_control''
      | FILE_MANAGEMENT \<Rightarrow> ''file_management''
      | TASK_MANAGEMENT \<Rightarrow> ''task_management''
      | WEATHER_INFO \<Rightarrow> ''weather_info''
      | NEWS_BRIEFING \<Rightarrow> ''news_briefing''
      | CALCULATIONS \<Rightarrow> ''calculations''
      | TRANSLATIONS \<Rightarrow> ''translations''
      | REMINDERS \<Rightarrow> ''reminders''
      | UNKNOWN \<Rightarrow> ''unknown'')"

definition all_categories :: "CommandCategory list" where
  \<comment> \<open>the members of the enumeration in the order of their declaration\<close>
  "all_categories =
     [GENERAL_CONVERSATION, DOCUMENT_GENERATION, EMAIL_MANAGEMENT, CALENDAR_SCHEDULING,
      WEB_SEARCH, SYSTEM_CONTROL, FILE_MANAGEMENT, TASK_MANAGEMENT, WEATHER_INFO,
      NEWS_BRIEFING, CALCULATIONS, TRANSLATIONS, REMINDERS, UNKNOWN]"

definition maximum :: "real list \<Rightarrow> real" where
  \<comment> \<open>\<^verbatim>\<open>np.max\<close> of a list that is not empty\<close>
  "maximum xs = foldl max (hd xs) (tl xs)"

definition calculate_similarity_confidence ::
  "VoiceClassifier \<Rightarrow> string \<Rightarrow> CommandCategory \<Rightarrow> real" where
  "calculate_similarity_confidence st text c =
     (case command_patterns c of
        None \<Rightarrow> 0
      | Some groups \<Rightarrow>
          (let exs = concat (map examples groups)
           in if exs = [] then 0
              else (case vectorizer st of
                      None \<Rightarrow> 0
                    | Some cosine \<Rightarrow> maximum (map (cosine text) exs))))"

definition calculate_pattern_confidence :: "string \<Rightarrow> CommandCategory \<Rightarrow> real" where
  "calculate_pattern_confidence text c =
     (case command_patterns c of
        None \<Rightarrow> 0
      | Some groups \<Rightarrow>
          foldl (\<lambda>max_confidence pattern.
                   if re_found True pattern text then max max_confidence 0.8 else max_confidence)
                0 (concat (map patterns groups)))"

definition has_keyword :: "string list \<Rightarrow> string list \<Rightarrow> bool" where
  \<comment> \<open>\<^verbatim>\<open>any(word in ws for word in keywords)\<close>\<close>
  "has_keyword ws keywords \<longleftrightarrow> list_ex (\<lambda>word. word \<in> set ws) keywords"

definition generate_suggestions :: "string \<Rightarrow> string list" where
  "generate_suggestions text =
     (let keywords = split_ws text;
          suggestions =
            (if has_keyword [''create'', ''make'', ''generate'', ''write''] keywords
             then [(''Try: 'Create a document about [topic]'' @ [CHR 0x27]),
                   (''Try: 'Generate a PDF report on [subject]'' @ [CHR 0x27])]
             else []) @
            (if has_keyword [''send'', ''email'', ''mail''] keywords
             then [(''Try: 'Send an email to [recipient] about [subject]'' @ [CHR 0x27]),
                   (''Try: 'Compose a message to the team'' @ [CHR 0x27])]
             else []) @
            (if has_keyword [''search'', ''find'', ''look''] keywords
             then [(''Try: 'Search for information about [topic]'' @ [CHR 0x27]),
                   (''Try: 'Find details on [subject]'' @ [CHR 0x27])]
             else []) @
            (if has_keyword [''schedule'', ''meeting'', ''appointment''] keywords
             then [(''Try: 'Schedule a meeting with [person] tomorrow'' @ [CHR 0x27]),
                   (''Try: 'Book an appointment for [date/time]'' @ [CHR 0x27])]
             else []);
          suggestions =
            (if suggestions = []
             then [''Try being more specific about what you want to do'',
                   (''Use action words like 'create', 'send', 'search', or 'schedule'' @ [CHR 0x27]),
                   ''Include details like recipients, topics, or dates'']
             else suggestions)
      in take 3 suggestions)"

text \<open>
  The readings of the clock during one call of \<^verbatim>\<open>classify_command\<close>, in the order in
  which the call takes them. A call served from the cache takes the first two only.
\<close>

record classify_clock =
  t_start :: real
  t_cache_check :: real
  t_pre_start :: real
  t_pre_end :: real
  t_new_context :: real
  t_cls_start :: real
  t_cls_end :: real
  t_end :: real
  t_context :: real

definition cache_key :: "string \<Rightarrow> string \<Rightarrow> string \<Rightarrow> string" where
  "cache_key text user session = md5_hexdigest text @ ''_'' @ user @ ''_'' @ session"

definition cache_lookup ::
  "classify_clock \<Rightarrow> string \<Rightarrow> VoiceClassifier \<Rightarrow> ClassificationResult option" where
  \<comment> \<open>the cached result that the call returns, if any\<close>
  "cache_lookup clk key st =
     (case classification_cache st key of
        None \<Rightarrow> None
      | Some cached_result \<Rightarrow>
          if t_cache_check clk - classification_time cached_result < cache_ttl st
          then Some cached_result else None)"

definition combined_confidence ::
  "VoiceClassifier \<Rightarrow> string \<Rightarrow> bool \<Rightarrow> ConversationContext \<Rightarrow> CommandCategory \<Rightarrow> real" where
  "combined_confidence st normalized use_context context c =
     (let pattern_confidence = calculate_pattern_confidence normalized c;
          similarity_confidence = calculate_similarity_confidence st normalized c;
          combined = pattern_confidence * 0.6 + similarity_confidence * 0.4
      in if use_context \<and> last_command_category context = Some c then combined + 0.1
         else combined)"

definition consider_category ::
  "VoiceClassifier \<Rightarrow> string \<Rightarrow> bool \<Rightarrow> ConversationContext
     \<Rightarrow> CommandCategory \<times> real \<times> pydict \<Rightarrow> CommandCategory
     \<Rightarrow> CommandCategory \<times> real \<times> pydict" where
  \<comment> \<open>the body of the loop over the categories\<close>
  "consider_category st normalized use_context context best c =
     (case best of
        (best_category, best_confidence, best_parameters) \<Rightarrow>
          if c = UNKNOWN then (best_category, best_confidence, best_parameters)
          else
            (let combined = combined_confidence st normalized use_context context c
             in if combined > best_confidence
                then (c, combined, extract_parameters normalized c)
                else (best_category, best_confidence, best_parameters)))"

definition best_match ::
  "VoiceClassifier \<Rightarrow> string \<Rightarrow> bool \<Rightarrow> ConversationContext
     \<Rightarrow> CommandCategory \<times> real \<times> pydict" where
  "best_match st normalized use_context context =
     foldl (consider_category st normalized use_context context) (UNKNOWN, 0, []) all_categories"

definition get_or_create_context ::
  "classify_clock \<Rightarrow> string \<Rightarrow> string \<Rightarrow> VoiceClassifier \<Rightarrow> ConversationContext" where
  "get_or_create_context clk user session st =
     (case context_cache st (user @ ''_'' @ session) of
        Some c \<Rightarrow> c
      | None \<Rightarrow>
          \<lparr>ctx_user_id = user, ctx_session_id = session, conversation_history = [],
           current_topic = None, last_command_category = None,
           active_parameters = [], context_timestamp = t_new_context clk,
           preferences = []\<rparr>)"

definition prior_category :: "VoiceClassifier \<Rightarrow> string \<Rightarrow> string \<Rightarrow> CommandCategory option" where
  \<comment> \<open>the last category that the context of a user and session records, if any\<close>
  "prior_category st user session =
     (case context_cache st (user @ ''_'' @ session) of
        None \<Rightarrow> None
      | Some c \<Rightarrow> last_command_category c)"

definition classify_command ::
  "classify_clock \<Rightarrow> string \<Rightarrow> string \<Rightarrow> string \<Rightarrow> bool \<Rightarrow> VoiceClassifier
     \<Rightarrow> ClassificationResult \<times> VoiceClassifier" where
  "classify_command clk text user session use_context st =
     (case cache_lookup clk (cache_key text user session) st of
        Some cached_result \<Rightarrow> (cached_result, st\<lparr>cache_hits := cache_hits st + 1\<rparr>)
      | None \<Rightarrow>
          (let normalized = preprocess_text text;
               context_key = user @ ''_'' @ session;
               context = get_or_create_context clk user session st;
               (best_category, best_confidence, best_parameters) =
                 best_match st normalized use_context context;
               result =
                 \<lparr>category = best_category,
                  intent = category_value best_category @ ''_intent'',
                  confidence = best_confidence,
                  parameters = best_parameters,
                  context_used = use_context,
                  preprocessing_time = t_pre_end clk - t_pre_start clk,
                  classification_time = t_cls_end clk - t_cls_start clk,
                  suggestions = (if best_confidence < 0.5 then generate_suggestions normalized
                                 else []),
                  raw_text = text,
                  normalized_text = normalized\<rparr>;
               context' =
                 context\<lparr>last_command_category := Some best_category,
                         active_parameters := dict_update (active_parameters context) best_parameters,
                         context_timestamp := t_context clk\<rparr>
           in (result,
               st\<lparr>context_cache := (context_cache st)(context_key \<mapsto> context'),
                  classification_cache :=
                    (classification_cache st)(cache_key text user session \<mapsto> result),
                  total_classifications := total_classifications st + 1,
                  classification_times := classification_times st @ [t_end clk - t_start clk]\<rparr>)))"

text \<open>
  Clock readings of a call on 2023-11-14 (about 1.7 thousand million seconds after the
  epoch) that takes a few milliseconds, and of a second call one second later.
\<close>

definition clock_at :: "real \<Rightarrow> classify_clock" where
  "clock_at t =
     \<lparr>t_start = t, t_cache_check = t + 0.001, t_pre_start = t + 0.002, t_pre_end = t + 0.003,
      t_new_context = t + 0.004, t_cls_start = t + 0.005, t_cls_end = t + 0.007,
      t_end = t + 0.008, t_context = t + 0.009\<rparr>"

text \<open>Whether some pattern of a category is found in a text.\<close>

definition pattern_found :: "string \<Rightarrow> CommandCategory \<Rightarrow> bool" where
  "pattern_found text c \<longleftrightarrow>
     (case command_patterns c of
        None \<Rightarrow> False
      | Some groups \<Rightarrow> list_ex (\<lambda>pattern. re_found True pattern text) (concat (map patterns groups)))"

text \<open>
  Scenarios on a classifier fresh from its constructor. A greeting is classified twice
  for the same user and session, one second apart; or the second request asks for no
  context; or the second request is a filler word only. The last two repeat the first
  pair with the clock of a machine in the first hour after the epoch.
\<close>

definition greeting_first :: "ClassificationResult \<times> VoiceClassifier" where
  "greeting_first = classify_command (clock_at 1700000000) ''hi'' ''u'' ''s'' True classifier_init"

definition greeting_second :: "ClassificationResult \<times> VoiceClassifier" where
  "greeting_second =
     classify_command (clock_at 1700000001) ''hi'' ''u'' ''s'' True (snd greeting_first)"

definition greeting_without_context :: "ClassificationResult \<times> VoiceClassifier" where
  "greeting_without_context =
     classify_command (clock_at 1700000001) ''hi'' ''u'' ''s'' False (snd greeting_first)"

definition filler_after_greeting :: "ClassificationResult \<times> VoiceClassifier" where
  "filler_after_greeting =
     classify_command (clock_at 1700000001) ''um'' ''u'' ''s'' True (snd greeting_first)"

definition epoch_first :: "ClassificationResult \<times> VoiceClassifier" where
  "epoch_first = classify_command (clock_at 100) ''hi'' ''u'' ''s'' True classifier_init"

definition epoch_second :: "ClassificationResult \<times> VoiceClassifier" where
  "epoch_second = classify_command (clock_at 101) ''hi'' ''u'' ''s'' False (snd epoch_first)"

section \<open>Multi-step workflows\<close>

text \<open>
  \<^verbatim>\<open>src/_python/src/ai/advanced_voice_processor.py\<close>. Every \<^verbatim>\<open>datetime.now()\<close> is a
  clock reading passed in by the caller, as a real number of seconds.
\<close>

datatype CommandComplexity = SIMPLE | COMPOUND | SEQUENTIAL | CONDITIONAL | ITERATIVE

datatype WorkflowStatus = PENDING | RUNNING | WAITING_INPUT | COMPLETED | FAILED | CANCELLED

datatype ParameterType = LITERAL | CONTEXTUAL | INFERRED | PROMPTED | DEFAULT

record AdvancedParameter =
  ap_name :: string
  ap_value :: pyval
  ap_type :: ParameterType
  ap_confidence :: real
  ap_source :: string
  ap_alternatives :: "pyval list"
  ap_validation_status :: string
  ap_required :: bool
  ap_description :: string

record CommandStep =
  step_id :: string
  command :: string
  step_category :: CommandCategory
  step_parameters :: "(string \<times> AdvancedParameter) list"
  dependencies :: "string list"
  step_status :: WorkflowStatus
  step_result :: "pydict option"
  step_error :: "string option"
  retry_count :: int
  max_retries :: int
  timeout_seconds :: int
  started_at :: "real option"
  completed_at :: "real option"

record MultiStepWorkflow =
  workflow_id :: string
  user_id :: string
  session_id :: string
  original_command :: string
  complexity :: CommandComplexity
  steps :: "CommandStep list"
  current_step :: int
  status :: WorkflowStatus
  created_at :: real
  updated_at :: real
  completion_percentage :: real
  total_estimated_time :: real
  actual_time :: real
  context_data :: pydict


definition get_completed_steps :: "MultiStepWorkflow \<Rightarrow> CommandStep list" where
  "get_completed_steps w = filter (\<lambda>s. step_status s = COMPLETED) (steps w)"

definition get_pending_steps :: "MultiStepWorkflow \<Rightarrow> CommandStep list" where
  "get_pending_steps w = filter (\<lambda>s. step_status s = PENDING) (steps w)"

definition update_progress :: "real \<Rightarrow> MultiStepWorkflow \<Rightarrow> MultiStepWorkflow" where
  "update_progress now w =
     (let completed = length (get_completed_steps w);
          total = length (steps w)
      in w\<lparr>completion_percentage :=
             (if total > 0 then (real completed / real total) * 100 else 0),
           updated_at := now\<rparr>)"

record ProcessingStats =
  total_commands :: nat
  multi_step_commands :: nat
  successful_workflows :: nat
  failed_workflows :: nat
  average_processing_time :: real
  stats_cache_hits :: nat

section \<open>Advanced intent resolution and workflow assembly\<close>









definition identify_required_parameters :: "CommandCategory \<Rightarrow> string list" where
  "identify_required_parameters c =
     (case c of
        DOCUMENT_GENERATION \<Rightarrow> [''content_topic'', ''format'']
      | EMAIL_MANAGEMENT \<Rightarrow> [''recipient'', ''subject'']
      | CALENDAR_SCHEDULING \<Rightarrow> [''date_time'', ''attendees'']
      | WEB_SEARCH \<Rightarrow> [''query'']
      | REMINDERS \<Rightarrow> [''task'', ''time'']
      | CALCULATIONS \<Rightarrow> [''expression'']
      | _ \<Rightarrow> [])"

text \<open>
  \<^verbatim>\<open>def _identify_required_parameters(self, category)\<close> has one parameter besides
  \<^verbatim>\<open>self\<close>. A Python call binds its positional arguments before the body runs and raises
  \<^verbatim>\<open>TypeError\<close> when there are more of them than parameters, so a call of the method is
  modelled on the list of the arguments it is given. An argument that is no category is
  no key of the table.
\<close>

datatype pyarg = ArgStr string | ArgCategory CommandCategory

definition call_identify_required_parameters :: "pyarg list \<Rightarrow> py_exception + string list" where
  "call_identify_required_parameters args =
     (case args of
        [ArgCategory c] \<Rightarrow> Inr (identify_required_parameters c)
      | [ArgStr s] \<Rightarrow> Inr []
      | _ \<Rightarrow> Inl (TypeError ''_identify_required_parameters() got a wrong number of arguments''))"

definition get_required_parameters :: "CommandCategory \<Rightarrow> py_exception + string list" where
  \<comment> \<open>\<^verbatim>\<open>return self._identify_required_parameters(category)\<close>\<close>
  "get_required_parameters c = call_identify_required_parameters [ArgCategory c]"




record IntentResolutionResult =
  primary_intent :: string
  ir_confidence :: real
  alternative_intents :: "(string \<times> real) list"
  ir_complexity :: CommandComplexity
  estimated_steps :: int
  parameters_needed :: "string list"
  context_dependencies :: "string list"
  workflow_template :: "string option"
  resolution_time :: real

text \<open>
  The part of the processor object that intent resolution and the workflow operations read
  and write. \<^verbatim>\<open>intent_classifier\<close> is the optional transformer pipeline: \<open>None\<close> when it
  was never loaded, otherwise a function from the text to an exception or a list of scored
  labels.
\<close>

record AdvancedVoiceProcessor =
  intent_classifier :: "(string \<Rightarrow> py_exception + (string \<times> real) list) option"
  active_workflows :: "string \<rightharpoonup> MultiStepWorkflow"
  processing_stats :: ProcessingStats



text \<open>The four workflow templates: the command and the category of each step.\<close>

definition workflow_templates :: "string \<rightharpoonup> (string \<times> CommandCategory) list" where
  "workflow_templates =
     [''document_creation_workflow'' \<mapsto>
        [(''gather_document_requirements'', DOCUMENT_GENERATION),
         (''create_document_outline'', DOCUMENT_GENERATION),
         (''generate_document_content'', DOCUMENT_GENERATION),
         (''format_document'', DOCUMENT_GENERATION),
         (''review_and_finalize'', DOCUMENT_GENERATION)],
      ''email_campaign_workflow'' \<mapsto>
        [(''define_email_audience'', EMAIL_MANAGEMENT),
         (''create_email_template'', EMAIL_MANAGEMENT),
         (''personalize_email_content'', EMAIL_MANAGEMENT),
         (''schedule_email_delivery'', EMAIL_MANAGEMENT),
         (''track_email_metrics'', EMAIL_MANAGEMENT)],
      ''meeting_coordination_workflow'' \<mapsto>
        [(''identify_meeting_participants'', CALENDAR_SCHEDULING),
         (''find_available_time_slots'', CALENDAR_SCHEDULING),
         (''send_meeting_invites'', CALENDAR_SCHEDULING),
         (''prepare_meeting_agenda'', DOCUMENT_GENERATION),
         (''setup_meeting_room'', SYSTEM_CONTROL)],
      ''research_compilation_workflow'' \<mapsto>
        [(''define_research_scope'', WEB_SEARCH),
         (''conduct_web_research'', WEB_SEARCH),
         (''analyze_research_findings'', GENERAL_CONVERSATION),
         (''compile_research_report'', DOCUMENT_GENERATION),
         (''create_presentation_summary'', DOCUMENT_GENERATION)]]"

definition new_step ::
  "string \<Rightarrow> string \<Rightarrow> CommandCategory \<Rightarrow> (string \<times> AdvancedParameter) list \<Rightarrow> CommandStep" where
  \<comment> \<open>\<^verbatim>\<open>CommandStep(step_id, command, category, parameters)\<close> with the defaults of the class\<close>
  "new_step sid cmd cat ps =
     \<lparr>step_id = sid, command = cmd, step_category = cat, step_parameters = ps,
      dependencies = [], step_status = PENDING, step_result = None, step_error = None,
      retry_count = 0, max_retries = 3, timeout_seconds = 30,
      started_at = None, completed_at = None\<rparr>"

definition params_by_name :: "AdvancedParameter list \<Rightarrow> (string \<times> AdvancedParameter) list" where
  \<comment> \<open>\<^verbatim>\<open>{param.name: param for param in parameters}\<close>\<close>
  "params_by_name ps = foldl (\<lambda>d q. dict_set d (ap_name q) q) [] ps"

text \<open>
  \<^verbatim>\<open>_detect_multi_step_workflow\<close>. The identifier is the \<^verbatim>\<open>uuid4\<close> string drawn by
  the call and \<open>now\<close> the clock reading of the two timestamps. A template step takes the
  parameters named in the step definition's \<^verbatim>\<open>parameters\<close> entry; no step definition
  has one, so it takes none.
\<close>

definition detect_multi_step_workflow ::
  "string \<Rightarrow> real \<Rightarrow> string \<Rightarrow> IntentResolutionResult \<Rightarrow> AdvancedParameter list \<Rightarrow> string
     \<Rightarrow> string \<Rightarrow> AdvancedVoiceProcessor \<Rightarrow> MultiStepWorkflow option \<times> AdvancedVoiceProcessor" where
  "detect_multi_step_workflow uuid now text ir ps user session p =
     (let tmpl = (case workflow_template ir of None \<Rightarrow> None
                  | Some t \<Rightarrow> if t = [] then None else Some t)
      in if estimated_steps ir \<le> 1 \<and> tmpl = None then (None, p)
         else
           (let template_steps = (case tmpl of None \<Rightarrow> None | Some t \<Rightarrow> workflow_templates t);
                steps =
                  (case template_steps of
                     Some defs \<Rightarrow>
                       map (\<lambda>(i, (cmd, cat)).
                              new_step (uuid @ ''_step_'' @ str_nat i) cmd cat [])
                           (enumerate 0 defs)
                   | None \<Rightarrow>
                       map (\<lambda>i. new_step (uuid @ ''_step_'' @ str_nat i)
                                   (''step_'' @ str_nat i @ ''_'' @ primary_intent ir)
                                   GENERAL_CONVERSATION (params_by_name ps))
                           [0..<nat (estimated_steps ir)]);
                workflow =
                  \<lparr>workflow_id = uuid, user_id = user, session_id = session,
                   original_command = text, complexity = ir_complexity ir, steps = steps,
                   current_step = 0, status = PENDING, created_at = now, updated_at = now,
                   completion_percentage = 0, total_estimated_time = real_of_int (estimated_steps ir) * 30,
                   actual_time = 0, context_data = []\<rparr>
            in (Some workflow, p\<lparr>active_workflows := (active_workflows p)(uuid \<mapsto> workflow)\<rparr>)))"

record ExecutionResult =
  er_status :: string
  er_workflow_id :: "string option"
  er_total_steps :: "nat option"
  er_estimated_time :: "real option"

text \<open>
  \<^verbatim>\<open>_execute_workflow\<close> changes the workflow object it is given, which is the object
  stored in \<^verbatim>\<open>active_workflows\<close>: the model writes the changed workflow back.
\<close>

definition execute_workflow ::
  "real \<Rightarrow> MultiStepWorkflow option \<Rightarrow> AdvancedVoiceProcessor
     \<Rightarrow> ExecutionResult \<times> MultiStepWorkflow option \<times> AdvancedVoiceProcessor" where
  "execute_workflow now wo p =
     (case wo of
        None \<Rightarrow> (\<lparr>er_status = ''completed'', er_workflow_id = None, er_total_steps = None,
                   er_estimated_time = None\<rparr>, None, p)
      | Some w \<Rightarrow>
          (let w' = update_progress now (w\<lparr>status := PENDING\<rparr>)
           in (\<lparr>er_status = ''workflow_created'', er_workflow_id = Some (workflow_id w'),
                 er_total_steps = Some (length (steps w')),
                 er_estimated_time = Some (total_estimated_time w')\<rparr>,
               Some w',
               p\<lparr>active_workflows := (active_workflows p)(workflow_id w' \<mapsto> w')\<rparr>)))"

section \<open>Step advancement\<close>




text \<open>
  A workflow as \<^verbatim>\<open>_detect_multi_step_workflow\<close> and \<^verbatim>\<open>_execute_workflow\<close> leave it: at
  step 0, itself and every step pending, percentage 0.
\<close>

definition created :: "MultiStepWorkflow \<Rightarrow> bool" where
  "created w \<longleftrightarrow> current_step w = 0 \<and> status w = PENDING \<and> completion_percentage w = 0 \<and>
     list_all (\<lambda>s. step_status s = PENDING) (steps w)"







section \<open>The advanced command pipeline\<close>




section \<open>Session multiplexer\<close>

text \<open>
  \<^verbatim>\<open>src/_python/src/api/websocket_manager.py\<close>. The transport of a connection is outside
  the program: whether \<^verbatim>\<open>accept\<close> and \<^verbatim>\<open>send_json\<close> succeed or raise is an input of
  each operation, and the payload of a message goes to the transport only. The two
  dictionaries keep their insertion order. The mirror of the registry in the shared store
  is written by separate tasks that catch their own errors and is not part of the state.
\<close>

record WebSocketConnection =
  client_id :: string
  connected_at :: real
  last_activity :: real
  message_count :: nat
  is_active :: bool
  metadata :: pydict

record WebSocketManager =
  active_connections :: "(string \<times> WebSocketConnection) list"
  connection_groups :: "(string \<times> string list) list"

definition manager_init :: WebSocketManager where
  "manager_init = \<lparr>active_connections = [], connection_groups = []\<rparr>"

definition disconnect :: "string \<Rightarrow> WebSocketManager \<Rightarrow> WebSocketManager" where
  "disconnect cid m =
     (if dict_has (active_connections m) cid
      then m\<lparr>active_connections := dict_del (active_connections m) cid,
             connection_groups :=
               map (\<lambda>(group_name, members).
                      (group_name, if cid \<in> set members then remove1 cid members else members))
                   (connection_groups m)\<rparr>
      else m)"

text \<open>
  \<^verbatim>\<open>send_personal_message\<close>: \<open>ok\<close> tells whether the transport takes the message. A
  failed send disconnects the client.
\<close>

definition send_personal_message ::
  "bool \<Rightarrow> real \<Rightarrow> string \<Rightarrow> WebSocketManager \<Rightarrow> bool \<times> WebSocketManager" where
  "send_personal_message ok now cid m =
     (case dict_get (active_connections m) cid of
        None \<Rightarrow> (False, m)
      | Some connection \<Rightarrow>
          if ok
          then (True, m\<lparr>active_connections :=
                  dict_set (active_connections m) cid
                    (connection\<lparr>last_activity := now,
                                message_count := message_count connection + 1\<rparr>)\<rparr>)
          else (False, disconnect cid
                  (m\<lparr>active_connections :=
                       dict_set (active_connections m) cid (connection\<lparr>is_active := False\<rparr>)\<rparr>)))"

definition connect ::
  "bool \<Rightarrow> bool \<Rightarrow> real \<Rightarrow> string \<Rightarrow> WebSocketManager \<Rightarrow> bool \<times> WebSocketManager" where
  "connect accept_ok send_ok now cid m =
     (if \<not> accept_ok then (False, m)
      else
        (let connection = \<lparr>client_id = cid, connected_at = now, last_activity = now,
                            message_count = 0, is_active = True, metadata = []\<rparr>;
             m1 = m\<lparr>active_connections := dict_set (active_connections m) cid connection\<rparr>;
             (sent, m2) = send_personal_message send_ok now cid m1
         in (True, m2)))"

definition add_to_group :: "string \<Rightarrow> string \<Rightarrow> WebSocketManager \<Rightarrow> bool \<times> WebSocketManager" where
  "add_to_group cid group_name m =
     (if \<not> dict_has (active_connections m) cid then (False, m)
      else
        (let groups = (if dict_has (connection_groups m) group_name then connection_groups m
                       else dict_set (connection_groups m) group_name []);
             members = (case dict_get groups group_name of None \<Rightarrow> [] | Some ms \<Rightarrow> ms);
             groups' = (if cid \<in> set members then groups
                        else dict_set groups group_name (members @ [cid]))
         in (True, m\<lparr>connection_groups := groups'\<rparr>)))"

definition remove_from_group :: "string \<Rightarrow> string \<Rightarrow> WebSocketManager \<Rightarrow> WebSocketManager" where
  "remove_from_group cid group_name m =
     (case dict_get (connection_groups m) group_name of
        None \<Rightarrow> m
      | Some members \<Rightarrow>
          if cid \<in> set members
          then m\<lparr>connection_groups := dict_set (connection_groups m) group_name (remove1 cid members)\<rparr>
          else m)"

text \<open>
  The loops over clients: a broadcast and a group message send to each client in turn and
  count the successes; shutdown sends a notice to each client and disconnects it; the
  janitor disconnects the idle ones. \<open>oks\<close> gives the transport's answer for each client.
\<close>

fun send_each :: "(string \<Rightarrow> bool) \<Rightarrow> real \<Rightarrow> string list \<Rightarrow> WebSocketManager \<Rightarrow> nat \<times> WebSocketManager" where
  "send_each oks now [] m = (0, m)"
| "send_each oks now (cid # cids) m =
     (let (sent, m1) = send_personal_message (oks cid) now cid m;
          (n, m2) = send_each oks now cids m1
      in ((if sent then 1 else 0) + n, m2))"

definition broadcast_message ::
  "(string \<Rightarrow> bool) \<Rightarrow> real \<Rightarrow> string list \<Rightarrow> WebSocketManager \<Rightarrow> nat \<times> WebSocketManager" where
  "broadcast_message oks now exclude_clients m =
     send_each oks now
       (filter (\<lambda>cid. cid \<notin> set exclude_clients) (map fst (active_connections m))) m"

definition send_to_group ::
  "(string \<Rightarrow> bool) \<Rightarrow> real \<Rightarrow> string \<Rightarrow> WebSocketManager \<Rightarrow> nat \<times> WebSocketManager" where
  "send_to_group oks now group_name m =
     (case dict_get (connection_groups m) group_name of
        None \<Rightarrow> (0, m)
      | Some client_ids \<Rightarrow> send_each oks now client_ids m)"

fun shutdown_each :: "(string \<Rightarrow> bool) \<Rightarrow> real \<Rightarrow> string list \<Rightarrow> WebSocketManager \<Rightarrow> WebSocketManager" where
  "shutdown_each oks now [] m = m"
| "shutdown_each oks now (cid # cids) m =
     shutdown_each oks now cids (disconnect cid (snd (send_personal_message (oks cid) now cid m)))"

definition shutdown :: "(string \<Rightarrow> bool) \<Rightarrow> real \<Rightarrow> WebSocketManager \<Rightarrow> WebSocketManager" where
  "shutdown oks now m = shutdown_each oks now (map fst (active_connections m)) m"

definition cleanup_inactive_connections :: "real \<Rightarrow> WebSocketManager \<Rightarrow> WebSocketManager" where
  \<comment> \<open>one round of the janitor at clock reading \<open>now\<close>\<close>
  "cleanup_inactive_connections now m =
     (let inactive_clients =
            map fst (filter (\<lambda>(cid, connection). now - last_activity connection > 300)
                            (active_connections m))
      in foldl (\<lambda>acc cid. disconnect cid acc) m inactive_clients)"

datatype ws_op =
    Connect bool bool real string
  | Disconnect string
  | SendPersonal bool real string
  | Broadcast "string \<Rightarrow> bool" real "string list"
  | SendToGroup "string \<Rightarrow> bool" real string
  | AddToGroup string string
  | RemoveFromGroup string string
  | Shutdown "string \<Rightarrow> bool" real
  | Cleanup real

fun ws_step :: "WebSocketManager \<Rightarrow> ws_op \<Rightarrow> WebSocketManager" where
  "ws_step m (Connect accept_ok send_ok now cid) = snd (connect accept_ok send_ok now cid m)"
| "ws_step m (Disconnect cid) = disconnect cid m"
| "ws_step m (SendPersonal ok now cid) = snd (send_personal_message ok now cid m)"
| "ws_step m (Broadcast oks now excl) = snd (broadcast_message oks now excl m)"
| "ws_step m (SendToGroup oks now g) = snd (send_to_group oks now g m)"
| "ws_step m (AddToGroup cid g) = snd (add_to_group cid g m)"
| "ws_step m (RemoveFromGroup cid g) = remove_from_group cid g m"
| "ws_step m (Shutdown oks now) = shutdown oks now m"
| "ws_step m (Cleanup now) = cleanup_inactive_connections now m"

definition ws_run :: "ws_op list \<Rightarrow> WebSocketManager" where
  "ws_run ops = foldl ws_step manager_init ops"

text \<open>
  Every member of every group is a registered client, and no group lists a client twice.
\<close>

definition groups_connected :: "WebSocketManager \<Rightarrow> bool" where
  "groups_connected m \<longleftrightarrow>
     list_all (\<lambda>(group_name, members).
                 list_all (dict_has (active_connections m)) members \<and> distinct members)
              (connection_groups m)"

definition group_members :: "WebSocketManager \<Rightarrow> string \<Rightarrow> string list" where
  "group_members m group_name =
     (case dict_get (connection_groups m) group_name of None \<Rightarrow> [] | Some ms \<Rightarrow> ms)"

text \<open>A short session: two clients connect and join a group, a stranger is refused, one send fails.\<close>

definition session_ops :: "ws_op list" where
  "session_ops =
     [Connect True True 0 ''a'', Connect True True 1 ''b'', AddToGroup ''a'' ''team'',
      AddToGroup ''b'' ''team'', AddToGroup ''c'' ''team'', SendPersonal False 2 ''b'']"

section \<open>Search composition\<close>












section \<open>Tool broker\<close>

text \<open>
  \<^verbatim>\<open>src/_python/src/mcp_bridge.py\<close>. A tool server is an object of one of five classes
  outside the broker; the broker sees it through \<^verbatim>\<open>hasattr\<close>, \<^verbatim>\<open>getattr\<close> and calls.
  It is modelled by its attributes: a method is a function from the keyword arguments to
  an exception or a result, any other attribute is a value. The broker's state carries a
  log of the methods \<^verbatim>\<open>execute_command\<close> has called, which the source does not keep
  and which only serves to say that a method was or was not reached.
\<close>

datatype attribute = Method "pydict \<Rightarrow> py_exception + pyval" | Data pyval

record MCPServer =
  attributes :: "string \<rightharpoonup> attribute"

record MCPServerStatus =
  srv_name :: string
  srv_status :: string
  last_ping :: "real option"
  error_message :: "string option"
  capabilities :: "string list"

record MCPBridge =
  servers :: "(string \<times> MCPServer) list"
  server_status :: "(string \<times> MCPServerStatus) list"
  initialization_complete :: bool
  invocations :: "(string \<times> string \<times> pydict) list"

definition call_method :: "MCPServer \<Rightarrow> string \<Rightarrow> pydict \<Rightarrow> py_exception + pyval" where
  \<comment> \<open>\<^verbatim>\<open>await getattr(server, name)(**params)\<close>\<close>
  "call_method server name params =
     (case attributes server name of
        None \<Rightarrow> Inl (AttributeError (''no attribute '' @ name))
      | Some (Data v) \<Rightarrow> Inl (TypeError ''object is not callable'')
      | Some (Method f) \<Rightarrow> f params)"

definition set_status ::
  "(string \<times> MCPServerStatus) list \<Rightarrow> string \<Rightarrow> (MCPServerStatus \<Rightarrow> MCPServerStatus)
     \<Rightarrow> (string \<times> MCPServerStatus) list" where
  "set_status sts n f = map (\<lambda>(k, st). if k = n then (k, f st) else (k, st)) sts"

definition start_all_servers :: "real \<Rightarrow> MCPBridge \<Rightarrow> py_exception + MCPBridge" where
  "start_all_servers now b =
     (if \<not> initialization_complete b then Inl (RuntimeError ''MCP Bridge not initialized'')
      else Inr (foldl (\<lambda>acc (server_name, server).
                  case call_method server ''start'' [] of
                    Inr v \<Rightarrow>
                      acc\<lparr>server_status := set_status (server_status acc) server_name
                            (\<lambda>st. st\<lparr>srv_status := ''running'', last_ping := Some now\<rparr>)\<rparr>
                  | Inl e \<Rightarrow>
                      acc\<lparr>server_status := set_status (server_status acc) server_name
                            (\<lambda>st. st\<lparr>srv_status := ''error'',
                                     error_message := Some (str_exception e)\<rparr>)\<rparr>)
                b (servers b)))"

definition execute_command ::
  "string \<Rightarrow> string \<Rightarrow> pydict \<Rightarrow> MCPBridge \<Rightarrow> (py_exception + pyval) \<times> MCPBridge" where
  "execute_command server_name cmd params b =
     (case dict_get (servers b) server_name of
        None \<Rightarrow> (Inl (RuntimeError (''MCP server '' @ server_name @ '' not available'')), b)
      | Some server \<Rightarrow>
          (case attributes server cmd of
             None \<Rightarrow> (Inl (AttributeError (''Server '' @ server_name @ '' does not support command ''
                                           @ cmd)), b)
           | Some (Data v) \<Rightarrow> (Inl (TypeError ''object is not callable''), b)
           | Some (Method f) \<Rightarrow>
               (f params, b\<lparr>invocations := invocations b @ [(server_name, cmd, params)]\<rparr>)))"

text \<open>
  A broker with one tool whose \<^verbatim>\<open>start\<close> raises, after \<^verbatim>\<open>initialize\<close> and after
  \<^verbatim>\<open>start_all_servers\<close>.
\<close>

definition failing_search_server :: MCPServer where
  "failing_search_server =
     \<lparr>attributes = [''start'' \<mapsto> Method (\<lambda>params. Inl (OtherError ''no network'')),
                    ''web_search'' \<mapsto> Method (\<lambda>params. Inr (PList [])),
                    ''server_name'' \<mapsto> Data (PStr ''search'')]\<rparr>"

definition initialized_bridge :: MCPBridge where
  "initialized_bridge =
     \<lparr>servers = [(''search'', failing_search_server)],
      server_status = [(''search'', \<lparr>srv_name = ''search'', srv_status = ''initialized'',
          last_ping = None, error_message = None,
          capabilities = [''web_search'', ''knowledge_query'', ''fact_check'', ''research'']\<rparr>)],
      initialization_complete = True, invocations = []\<rparr>"

definition started_bridge :: MCPBridge where
  "started_bridge = (case start_all_servers 0 initialized_bridge of Inr b \<Rightarrow> b | Inl e \<Rightarrow> initialized_bridge)"

section \<open>Token authenticator\<close>


record jwt_payload =
  sub :: "string option"
  exp :: int
  iat :: int
  token_type :: string




















section \<open>Facts about the classifier\<close>

lemma pattern_fold:
  "foldl (\<lambda>m p. if P p then max m (0.8::real) else m) a ps
     = (if list_ex P ps then max a 0.8 else a)"
  by (induction ps arbitrary: a) auto

lemma pattern_confidence_found:
  "calculate_pattern_confidence text c = (if pattern_found text c then 0.8 else 0)"
  by (simp add: calculate_pattern_confidence_def pattern_found_def pattern_fold split: option.split)

lemma similarity_unfitted:
  "vectorizer st = None \<Longrightarrow> calculate_similarity_confidence st text c = 0"
  by (simp add: calculate_similarity_confidence_def Let_def split: option.split)

lemma prior_category_context:
  "last_command_category (get_or_create_context clk user session st) = prior_category st user session"
  by (simp add: get_or_create_context_def prior_category_def split: option.split)

lemma consider_skip:
  "c = UNKNOWN \<or> combined_confidence st n uc ctx c \<le> bconf \<Longrightarrow>
     consider_category st n uc ctx (b, bconf, bp) c = (b, bconf, bp)"
  by (auto simp: consider_category_def Let_def)

lemma consider_take:
  "c \<noteq> UNKNOWN \<Longrightarrow> bconf < combined_confidence st n uc ctx c \<Longrightarrow>
     consider_category st n uc ctx (b, bconf, bp) c
       = (c, combined_confidence st n uc ctx c, extract_parameters n c)"
  by (simp add: consider_category_def Let_def)

lemma consider_all_skip:
  "(\<And>c. c \<in> set cs \<Longrightarrow> c = UNKNOWN \<or> combined_confidence st n uc ctx c \<le> bconf) \<Longrightarrow>
     foldl (consider_category st n uc ctx) (b, bconf, bp) cs = (b, bconf, bp)"
  by (induction cs) (simp_all add: consider_skip)

lemma all_categories_complete: "c \<in> set all_categories"
  by (cases c) (simp_all add: all_categories_def)

lemma best_match_unrecognized:
  assumes "\<forall>c. calculate_pattern_confidence n c = 0"
      and "\<forall>c. calculate_similarity_confidence st n c = 0"
      and "\<not> uc \<or> last_command_category ctx = None \<or> last_command_category ctx = Some UNKNOWN"
  shows "best_match st n uc ctx = (UNKNOWN, 0, [])"
proof -
  have cc: "c \<noteq> UNKNOWN \<Longrightarrow> combined_confidence st n uc ctx c = 0" for c
    using assms by (auto simp: combined_confidence_def Let_def)
  show ?thesis
    unfolding best_match_def by (rule consider_all_skip) (use cc in force)
qed

lemma best_match_single:
  assumes "c0 \<noteq> UNKNOWN" and "0 < v"
      and "\<And>c. combined_confidence st n uc ctx c = (if c = c0 then v else 0)"
  shows "best_match st n uc ctx = (c0, v, extract_parameters n c0)"
proof -
  obtain pre post where sp: "all_categories = pre @ c0 # post" and "c0 \<notin> set pre"
    using split_list_first[OF all_categories_complete[of c0]] by blast
  have 1: "foldl (consider_category st n uc ctx) (UNKNOWN, 0, []) pre = (UNKNOWN, 0, [])"
    by (rule consider_all_skip) (use \<open>c0 \<notin> set pre\<close> assms(3) in auto)
  have 2: "consider_category st n uc ctx (UNKNOWN, 0, []) c0 = (c0, v, extract_parameters n c0)"
    using consider_take[of c0 0 st n uc ctx UNKNOWN "[]"] assms by simp
  have 3: "foldl (consider_category st n uc ctx) (c0, v, extract_parameters n c0) post
             = (c0, v, extract_parameters n c0)"
    by (rule consider_all_skip) (use assms(2,3) in auto)
  show ?thesis
    unfolding best_match_def sp by (simp add: 1 2 3)
qed

lemma best_match_context_only:
  assumes "\<forall>c. calculate_pattern_confidence n c = 0"
      and "\<forall>c. calculate_similarity_confidence st n c = 0"
      and "uc" and "last_command_category ctx = Some c0" and "c0 \<noteq> UNKNOWN"
  shows "best_match st n uc ctx = (c0, 0.1, extract_parameters n c0)"
proof -
  have cc: "combined_confidence st n uc ctx c = (if c = c0 then 0.1 else 0)" for c
    using assms by (auto simp: combined_confidence_def Let_def)
  show ?thesis by (rule best_match_single[OF assms(5) _ cc]) simp
qed

lemma best_match_fold:
  "foldl (consider_category st n uc ctx) (b, v, p) cs = (b', v', p') \<Longrightarrow>
     v \<le> v' \<and>
     (\<forall>c\<in>set cs. c \<noteq> UNKNOWN \<longrightarrow> combined_confidence st n uc ctx c \<le> v') \<and>
     ((b', v', p') = (b, v, p) \<or>
      (b' \<noteq> UNKNOWN \<and> v' = combined_confidence st n uc ctx b' \<and>
       p' = extract_parameters n b' \<and> v < v'))"
proof (induction cs arbitrary: b v p)
  case Nil
  then show ?case by simp
next
  case (Cons c cs)
  obtain b1 v1 p1 where step: "consider_category st n uc ctx (b, v, p) c = (b1, v1, p1)"
    by (cases "consider_category st n uc ctx (b, v, p) c") auto
  from Cons.prems have rest: "foldl (consider_category st n uc ctx) (b1, v1, p1) cs = (b', v', p')"
    by (simp add: step)
  note ih = Cons.IH[OF rest]
  have s: "v \<le> v1 \<and> (c \<noteq> UNKNOWN \<longrightarrow> combined_confidence st n uc ctx c \<le> v1) \<and>
           ((b1, v1, p1) = (b, v, p) \<or>
            (b1 \<noteq> UNKNOWN \<and> v1 = combined_confidence st n uc ctx b1 \<and>
             p1 = extract_parameters n b1 \<and> v < v1))"
    using step by (auto simp: consider_category_def Let_def split: if_splits)
  show ?case using ih s by auto
qed

lemma best_match_maximal:
  assumes "best_match st n uc ctx = (b, v, p)"
  shows "0 \<le> v"
    and "c \<noteq> UNKNOWN \<Longrightarrow> combined_confidence st n uc ctx c \<le> v"
    and "b \<noteq> UNKNOWN \<Longrightarrow> v = combined_confidence st n uc ctx b \<and> 0 < v"
  using best_match_fold[OF assms[unfolded best_match_def]] all_categories_complete[of c]
  by auto

lemma best_match_unique:
  assumes "c0 \<noteq> UNKNOWN" and "0 < combined_confidence st n uc ctx c0"
      and "\<And>c. c \<noteq> UNKNOWN \<Longrightarrow> c \<noteq> c0 \<Longrightarrow>
             combined_confidence st n uc ctx c < combined_confidence st n uc ctx c0"
  shows "best_match st n uc ctx
           = (c0, combined_confidence st n uc ctx c0, extract_parameters n c0)"
proof -
  obtain b v p where bm: "best_match st n uc ctx = (b, v, p)"
    by (cases "best_match st n uc ctx") auto
  note f = best_match_fold[OF bm[unfolded best_match_def]]
  have le: "combined_confidence st n uc ctx c0 \<le> v"
    using f assms(1) all_categories_complete[of c0] by auto
  then have "(b, v, p) \<noteq> (UNKNOWN, 0, [])" using assms(2) by auto
  with f have b: "b \<noteq> UNKNOWN" "v = combined_confidence st n uc ctx b"
      "p = extract_parameters n b" by auto
  have "b = c0" using assms(3)[of b] b le by force
  with b bm show ?thesis by simp
qed

lemma similarity_vectorizer:
  "vectorizer st' = vectorizer st \<Longrightarrow>
     calculate_similarity_confidence st' n c = calculate_similarity_confidence st n c"
  unfolding calculate_similarity_confidence_def by (simp only:)

lemma combined_boost:
  "combined_confidence st n uc ctx c
     = calculate_pattern_confidence n c * 0.6 + calculate_similarity_confidence st n c * 0.4
       + (if uc \<and> last_command_category ctx = Some c then 0.1 else 0)"
  by (simp add: combined_confidence_def Let_def)

lemma suggestions_nonempty: "generate_suggestions text \<noteq> []"
  by (simp add: generate_suggestions_def Let_def)

lemma classify_computed:
  assumes "cache_lookup clk (cache_key text user session) st = None"
  shows "category (fst (classify_command clk text user session uc st))
           = fst (best_match st (preprocess_text text) uc (get_or_create_context clk user session st))"
    and "confidence (fst (classify_command clk text user session uc st))
           = fst (snd (best_match st (preprocess_text text) uc (get_or_create_context clk user session st)))"
    and "suggestions (fst (classify_command clk text user session uc st))
           = (if fst (snd (best_match st (preprocess_text text) uc
                  (get_or_create_context clk user session st))) < 0.5
              then generate_suggestions (preprocess_text text) else [])"
    and "context_used (fst (classify_command clk text user session uc st)) = uc"
    and "classification_time (fst (classify_command clk text user session uc st))
           = t_cls_end clk - t_cls_start clk"
    and "cache_hits (snd (classify_command clk text user session uc st)) = cache_hits st"
    and "total_classifications (snd (classify_command clk text user session uc st))
           = total_classifications st + 1"
    and "vectorizer (snd (classify_command clk text user session uc st)) = vectorizer st"
    and "cache_ttl (snd (classify_command clk text user session uc st)) = cache_ttl st"
    and "classification_cache (snd (classify_command clk text user session uc st))
           = (classification_cache st)(cache_key text user session \<mapsto>
                fst (classify_command clk text user session uc st))"
    and "prior_category (snd (classify_command clk text user session uc st)) user session
           = Some (fst (best_match st (preprocess_text text) uc
                  (get_or_create_context clk user session st)))"
  using assms
  by (simp_all add: classify_command_def Let_def case_prod_beta prior_category_def)

lemma classify_cached:
  assumes "cache_lookup clk (cache_key text user session) st = Some r"
  shows "classify_command clk text user session uc st = (r, st\<lparr>cache_hits := cache_hits st + 1\<rparr>)"
  using assms by (simp add: classify_command_def)

lemma hi_patterns: "pattern_found ''hi'' c \<longleftrightarrow> c = GENERAL_CONVERSATION"
  by (cases c; hypsubst_thin; code_simp)

lemma empty_patterns: "\<not> pattern_found [] c"
  by (cases c; hypsubst_thin; code_simp)

lemma hi_normalized: "preprocess_text ''hi'' = ''hi''"
  by code_simp

lemma um_normalized: "preprocess_text ''um'' = []"
  by code_simp

lemma empty_text_patterns: "calculate_pattern_confidence [] c = 0"
  by (simp add: pattern_confidence_found empty_patterns)

lemma hi_best_match:
  assumes "vectorizer st = None"
      and "last_command_category ctx = None \<or> last_command_category ctx = Some GENERAL_CONVERSATION"
  shows "best_match st ''hi'' uc ctx =
           (GENERAL_CONVERSATION,
            if uc \<and> last_command_category ctx = Some GENERAL_CONVERSATION then 0.58 else 0.48, [])"
proof -
  let ?v = "if uc \<and> last_command_category ctx = Some GENERAL_CONVERSATION then 0.58 else 0.48 :: real"
  have cc: "combined_confidence st ''hi'' uc ctx c = (if c = GENERAL_CONVERSATION then ?v else 0)" for c
    using assms
    by (auto simp: combined_confidence_def Let_def pattern_confidence_found hi_patterns
                   similarity_unfitted)
  have ep: "extract_parameters ''hi'' GENERAL_CONVERSATION = []"
    by (simp add: extract_parameters_def)
  have "best_match st ''hi'' uc ctx
          = (GENERAL_CONVERSATION, ?v, extract_parameters ''hi'' GENERAL_CONVERSATION)"
    by (rule best_match_single[OF _ _ cc]) simp_all
  then show ?thesis by (simp only: ep)
qed

lemma stale_lookup:
  assumes "\<And>k r. classification_cache st k = Some r \<Longrightarrow>
              cache_ttl st \<le> t_cache_check clk - classification_time r"
  shows "cache_lookup clk key st = None"
  using assms by (fastforce simp: cache_lookup_def split: option.split)

lemma fresh_lookup: "cache_lookup clk key classifier_init = None"
  by (simp add: cache_lookup_def classifier_init_def)

lemma fresh_context:
  "last_command_category (get_or_create_context clk user session classifier_init) = None"
  by (simp add: get_or_create_context_def classifier_init_def)

lemma fresh_vectorizer: "vectorizer classifier_init = None"
  by (simp add: classifier_init_def)

lemmas fresh_hi_best_match = hi_best_match[OF fresh_vectorizer disjI1[OF fresh_context]]

lemma greeting_first_result:
  "category (fst greeting_first) = GENERAL_CONVERSATION"
  "confidence (fst greeting_first) = 0.48"
  "context_used (fst greeting_first) = True"
  "classification_time (fst greeting_first) = 0.002"
  unfolding greeting_first_def classify_computed[OF fresh_lookup] hi_normalized fresh_hi_best_match
  by (simp_all add: fresh_context clock_at_def)

lemma greeting_first_state:
  "vectorizer (snd greeting_first) = None"
  "cache_ttl (snd greeting_first) = 3600"
  "cache_hits (snd greeting_first) = 0"
  "total_classifications (snd greeting_first) = 1"
  "classification_cache (snd greeting_first) = [cache_key ''hi'' ''u'' ''s'' \<mapsto> fst greeting_first]"
  "prior_category (snd greeting_first) ''u'' ''s'' = Some GENERAL_CONVERSATION"
  unfolding greeting_first_def classify_computed[OF fresh_lookup] hi_normalized fresh_hi_best_match
  by (simp_all add: fresh_context classifier_init_def)

lemma greeting_first_stale:
  "cache_lookup (clock_at 1700000001) key (snd greeting_first) = None"
  by (rule stale_lookup)
     (auto simp: greeting_first_state greeting_first_result clock_at_def split: if_splits)

lemma greeting_first_prior:
  "last_command_category (get_or_create_context clk ''u'' ''s'' (snd greeting_first))
     = Some GENERAL_CONVERSATION"
  by (simp add: prior_category_context greeting_first_state)

section \<open>Dispatch and tool status\<close>

text \<open>
  C1, as amended. \<^verbatim>\<open>execute_command\<close> fails with \<^verbatim>\<open>RuntimeError\<close> when the name is
  not among the broker's servers and with \<^verbatim>\<open>AttributeError\<close> when the server object
  has no attribute of the command's name, in both cases without calling anything. When
  the attribute is a method the method is called with the parameters and its outcome is
  returned. The recorded status is never read: replacing the status table changes neither
  the outcome nor the calls made.
\<close>

theorem dispatch_ignores_status:
  "(dict_get (servers b) n = None \<longrightarrow>
      (\<exists>msg. execute_command n c ps b = (Inl (RuntimeError msg), b))) \<and>
   (\<forall>srv. dict_get (servers b) n = Some srv \<and> attributes srv c = None \<longrightarrow>
      (\<exists>msg. execute_command n c ps b = (Inl (AttributeError msg), b))) \<and>
   (\<forall>srv f. dict_get (servers b) n = Some srv \<and> attributes srv c = Some (Method f) \<longrightarrow>
      execute_command n c ps b = (f ps, b\<lparr>invocations := invocations b @ [(n, c, ps)]\<rparr>)) \<and>
   fst (execute_command n c ps (b\<lparr>server_status := sts\<rparr>)) = fst (execute_command n c ps b) \<and>
   invocations (snd (execute_command n c ps (b\<lparr>server_status := sts\<rparr>)))
     = invocations (snd (execute_command n c ps b))"
  by (auto simp: execute_command_def split: option.split attribute.split)

lemma started_bridge_eq:
  "started_bridge = initialized_bridge\<lparr>server_status :=
     [(''search'', \<lparr>srv_name = ''search'', srv_status = ''error'',
          last_ping = None, error_message = Some ''no network'',
          capabilities = [''web_search'', ''knowledge_query'', ''fact_check'', ''research'']\<rparr>)]\<rparr>"
  by (simp add: started_bridge_def start_all_servers_def initialized_bridge_def call_method_def
        failing_search_server_def set_status_def str_exception_def)

theorem dispatch_ignores_status_witness:
  "dict_get (servers started_bridge) ''search'' = Some failing_search_server \<and>
   dict_get (servers started_bridge) ''calendar'' = None \<and>
   attributes failing_search_server ''research'' = None \<and>
   (\<exists>msg. execute_command ''calendar'' ''web_search'' [] started_bridge
            = (Inl (RuntimeError msg), started_bridge)) \<and>
   (\<exists>msg. execute_command ''search'' ''research'' [] started_bridge
            = (Inl (AttributeError msg), started_bridge))"
proof -
  have 1: "dict_get (servers started_bridge) ''search'' = Some failing_search_server"
    by (simp add: started_bridge_eq initialized_bridge_def dict_get_def)
  have 2: "dict_get (servers started_bridge) ''calendar'' = None"
    by (simp add: started_bridge_eq initialized_bridge_def dict_get_def)
  have 3: "attributes failing_search_server ''research'' = None"
    by (simp add: failing_search_server_def)
  from dispatch_ignores_status[of started_bridge "''calendar''" "''web_search''" "[]"] 2
  have 4: "\<exists>msg. execute_command ''calendar'' ''web_search'' [] started_bridge
            = (Inl (RuntimeError msg), started_bridge)" by blast
  from dispatch_ignores_status[of started_bridge "''search''" "''research''" "[]"] 1 3
  have 5: "\<exists>msg. execute_command ''search'' ''research'' [] started_bridge
            = (Inl (AttributeError msg), started_bridge)" by blast
  from 1 2 3 4 5 show ?thesis by blast
qed

text \<open>
  The claim as stated: the tool whose start failed has status \<open>error\<close>, and a command
  sent to it is not refused. Its method is called and its result returned.
\<close>

theorem tool_in_error_is_reached:
  "map_option srv_status (dict_get (server_status started_bridge) ''search'') = Some ''error'' \<and>
   fst (execute_command ''search'' ''web_search'' [] started_bridge) = Inr (PList []) \<and>
   invocations (snd (execute_command ''search'' ''web_search'' [] started_bridge))
     = [(''search'', ''web_search'', [])]"
  by (simp add: started_bridge_eq initialized_bridge_def dict_get_def execute_command_def
        failing_search_server_def)

section \<open>The same request twice\<close>

text \<open>
  C2. A call of \<^verbatim>\<open>classify_command\<close> with use of context is computed and yields a
  category other than unknown, which the context of the user and session did not record
  before; the same call is repeated at a moment when the clock reads at least the
  cache's time to live more than the duration of the first classification, as it does at
  every moment on a machine whose clock is more than an hour past the epoch. The cache
  test compares the clock with the duration stored in \<^verbatim>\<open>classification_time\<close>, so the
  entry of the first call counts as expired: the second call is computed again, no cache
  hit is counted, and because the first call recorded its category in the context the
  second result has a confidence 0.1 above the first and differs from it.
\<close>

theorem repeated_classification_recomputed:
  assumes "cache_lookup clk1 (cache_key text user session) st = None"
      and "cache_ttl st \<le> t_cache_check clk2 - (t_cls_end clk1 - t_cls_start clk1)"
      and "category (fst (classify_command clk1 text user session True st)) \<noteq> UNKNOWN"
      and "prior_category st user session
             \<noteq> Some (category (fst (classify_command clk1 text user session True st)))"
  shows "confidence (fst (classify_command clk2 text user session True
             (snd (classify_command clk1 text user session True st))))
           = confidence (fst (classify_command clk1 text user session True st)) + 0.1 \<and>
         fst (classify_command clk2 text user session True
             (snd (classify_command clk1 text user session True st)))
           \<noteq> fst (classify_command clk1 text user session True st) \<and>
         cache_hits (snd (classify_command clk2 text user session True
             (snd (classify_command clk1 text user session True st)))) = cache_hits st \<and>
         total_classifications (snd (classify_command clk2 text user session True
             (snd (classify_command clk1 text user session True st))))
           = total_classifications st + 2"
proof -
  let ?n = "preprocess_text text"
  let ?r1 = "fst (classify_command clk1 text user session True st)"
  let ?st1 = "snd (classify_command clk1 text user session True st)"
  let ?ctx1 = "get_or_create_context clk1 user session st"
  let ?ctx2 = "get_or_create_context clk2 user session ?st1"
  note c1 = classify_computed[OF assms(1), of True]
  obtain b v p where bm1: "best_match st ?n True ?ctx1 = (b, v, p)"
    by (cases "best_match st ?n True ?ctx1") auto
  have cat: "category ?r1 = b" and conf: "confidence ?r1 = v"
    by (simp_all add: c1 bm1)
  have b: "b \<noteq> UNKNOWN" using assms(3) cat by simp
  note mx = best_match_maximal[OF bm1]
  have v: "v = combined_confidence st ?n True ?ctx1 b" "0 < v" using mx(3)[OF b] by auto
  have last1: "last_command_category ?ctx1 \<noteq> Some b"
    using assms(4) cat by (simp add: prior_category_context)
  have last2: "last_command_category ?ctx2 = Some b"
    by (simp add: prior_category_context c1 bm1)
  have stale: "cache_lookup clk2 (cache_key text user session) ?st1 = None"
    using assms(2) by (simp add: cache_lookup_def c1)
  note c2 = classify_computed[OF stale, of True]
  have sim: "calculate_similarity_confidence ?st1 ?n c = calculate_similarity_confidence st ?n c" for c
    by (rule similarity_vectorizer) (simp add: c1)
  have cc2b: "combined_confidence ?st1 ?n True ?ctx2 b = v + 0.1"
    using last1 last2 v(1) by (simp add: combined_boost sim)
  have cc2c: "combined_confidence ?st1 ?n True ?ctx2 c \<le> v" if "c \<noteq> UNKNOWN" "c \<noteq> b" for c
  proof -
    have "combined_confidence ?st1 ?n True ?ctx2 c \<le> combined_confidence st ?n True ?ctx1 c"
      using last2 that by (simp add: combined_boost sim)
    also have "\<dots> \<le> v" by (rule mx(2)[OF that(1)])
    finally show ?thesis .
  qed
  have bm2: "best_match ?st1 ?n True ?ctx2 = (b, v + 0.1, extract_parameters ?n b)"
    using best_match_unique[of b ?st1 ?n True ?ctx2] b v(2) cc2b cc2c by force
  have conf2: "confidence (fst (classify_command clk2 text user session True ?st1)) = v + 0.1"
    by (simp add: c2 bm2)
  then have "confidence (fst (classify_command clk2 text user session True ?st1))
               \<noteq> confidence ?r1" using conf by simp
  then have ne: "fst (classify_command clk2 text user session True ?st1) \<noteq> ?r1" by auto
  show ?thesis using conf2 conf ne by (simp add: c2 c1)
qed

theorem repeated_classification_recomputed_witness:
  "cache_lookup (clock_at 1700000000) (cache_key ''hi'' ''u'' ''s'') classifier_init = None \<and>
   category (fst greeting_first) = GENERAL_CONVERSATION \<and>
   prior_category classifier_init ''u'' ''s'' = None \<and>
   confidence (fst greeting_first) = 0.48 \<and>
   confidence (fst greeting_second) = 0.58 \<and>
   fst greeting_second \<noteq> fst greeting_first \<and>
   cache_hits (snd greeting_second) = 0 \<and>
   total_classifications (snd greeting_second) = 2"
proof -
  have prior: "prior_category classifier_init ''u'' ''s'' = None"
    by (simp add: prior_category_def classifier_init_def)
  have ttl: "cache_ttl classifier_init
               \<le> t_cache_check (clock_at 1700000001)
                   - (t_cls_end (clock_at 1700000000) - t_cls_start (clock_at 1700000000))"
    by (simp add: classifier_init_def clock_at_def)
  have cat: "category (fst (classify_command (clock_at 1700000000) ''hi'' ''u'' ''s'' True
               classifier_init)) \<noteq> UNKNOWN"
    using greeting_first_result(1) by (simp add: greeting_first_def)
  have pr: "prior_category classifier_init ''u'' ''s''
              \<noteq> Some (category (fst (classify_command (clock_at 1700000000) ''hi'' ''u'' ''s'' True
                    classifier_init)))"
    by (simp add: prior)
  have init: "cache_hits classifier_init = 0" "total_classifications classifier_init = 0"
    by (simp_all add: classifier_init_def)
  from repeated_classification_recomputed[OF fresh_lookup ttl cat pr]
  show ?thesis
    by (simp add: greeting_second_def greeting_first_def[symmetric] greeting_first_result
          fresh_lookup prior init)
qed

section \<open>The sequential scenario\<close>





section \<open>Workflow progress\<close>







lemma detect_execute_created:
  assumes "detect_multi_step_workflow uuid now text ir ps user session p = (Some w, p')"
      and "execute_workflow now' (Some w) p' = (r, wo, p'')"
  shows "\<exists>w'. wo = Some w' \<and> created w' \<and> active_workflows p'' (workflow_id w') = Some w'"
proof -
  from assms(1) have w: "current_step w = 0"
      "list_all (\<lambda>s. step_status s = PENDING) (steps w)"
    by (auto simp: detect_multi_step_workflow_def Let_def new_step_def list_all_iff
             split: if_splits option.splits)
  then have "length (filter (\<lambda>s. step_status s = COMPLETED) (steps w)) = 0"
    by (auto simp: list_all_iff filter_empty_conv)
  with w assms(2) show ?thesis
    by (auto simp: execute_workflow_def Let_def update_progress_def created_def
                   get_completed_steps_def)
qed




section \<open>The cache key\<close>

lemma lookup_entry:
  "cache_lookup clk key st = Some r \<Longrightarrow> classification_cache st key = Some r"
  by (auto simp: cache_lookup_def split: option.splits if_splits)

text \<open>
  C5, as amended. The cache key is the MD5 digest of the text followed by the user and the
  session; the context flag is no part of it. Whatever the flag, after a call the entry
  under that key is the result the call returned and no other entry has changed, and a
  call that finds an unexpired entry under that key returns it.
\<close>

theorem cache_entry_ignores_use_context:
  "classification_cache (snd (classify_command clk text user session uc st))
     (cache_key text user session) = Some (fst (classify_command clk text user session uc st)) \<and>
   (\<forall>k. k \<noteq> cache_key text user session \<longrightarrow>
      classification_cache (snd (classify_command clk text user session uc st)) k
        = classification_cache st k) \<and>
   (\<forall>r. cache_lookup clk (cache_key text user session) st = Some r \<longrightarrow>
      fst (classify_command clk text user session uc st) = r)"
proof (cases "cache_lookup clk (cache_key text user session) st")
  case None
  then show ?thesis by (simp add: classify_computed(10)[OF None])
next
  case (Some r)
  then show ?thesis by (simp add: classify_cached[OF Some] lookup_entry[OF Some])
qed

lemma epoch_first_result:
  "context_used (fst epoch_first) = True"
  "classification_time (fst epoch_first) = 0.002"
  "cache_ttl (snd epoch_first) = 3600"
  "cache_hits (snd epoch_first) = 0"
  "classification_cache (snd epoch_first) = [cache_key ''hi'' ''u'' ''s'' \<mapsto> fst epoch_first]"
  unfolding epoch_first_def classify_computed[OF fresh_lookup]
  by (simp_all add: classifier_init_def clock_at_def)

lemma epoch_lookup:
  "cache_lookup (clock_at 101) (cache_key ''hi'' ''u'' ''s'') (snd epoch_first)
     = Some (fst epoch_first)"
  by (simp add: cache_lookup_def epoch_first_result clock_at_def)

theorem cache_entry_ignores_use_context_witness:
  "cache_lookup (clock_at 101) (cache_key ''hi'' ''u'' ''s'') (snd epoch_first)
     = Some (fst epoch_first) \<and>
   fst epoch_second = fst epoch_first"
proof -
  from cache_entry_ignores_use_context[of "clock_at 101" "''hi''" "''u''" "''s''" False "snd epoch_first"]
    epoch_lookup
  have "fst (classify_command (clock_at 101) ''hi'' ''u'' ''s'' False (snd epoch_first))
          = fst epoch_first" by blast
  then show ?thesis by (simp add: epoch_lookup epoch_second_def)
qed

lemma greeting_without_context_result:
  "context_used (fst greeting_without_context) = False"
  "classification_cache (snd greeting_without_context)
     = [cache_key ''hi'' ''u'' ''s'' \<mapsto> fst greeting_without_context]"
  unfolding greeting_without_context_def classify_computed[OF greeting_first_stale]
  by (simp_all add: greeting_first_state)

text \<open>
  The claim as stated. Two calls that differ in the context flag only use one cache
  entry: on a machine with the present date the second call writes its result over the
  entry of the first, and with a clock in the first hour after the epoch (where the
  expiry test passes) the call without context is served the result stored by the call
  with context.
\<close>

theorem use_context_shares_cache_entry:
  "classification_cache (snd greeting_first)
     = [cache_key ''hi'' ''u'' ''s'' \<mapsto> fst greeting_first] \<and>
   context_used (fst greeting_first) = True \<and>
   classification_cache (snd greeting_without_context)
     = [cache_key ''hi'' ''u'' ''s'' \<mapsto> fst greeting_without_context] \<and>
   context_used (fst greeting_without_context) = False \<and>
   fst epoch_second = fst epoch_first \<and>
   context_used (fst epoch_second) = True \<and>
   cache_hits (snd epoch_second) = 1"
proof -
  have e: "epoch_second = (fst epoch_first, (snd epoch_first)\<lparr>cache_hits := cache_hits (snd epoch_first) + 1\<rparr>)"
    unfolding epoch_second_def by (rule classify_cached[OF epoch_lookup])
  show ?thesis
    unfolding e
    by (simp add: greeting_first_state greeting_first_result greeting_without_context_result
          epoch_first_result)
qed

section \<open>Text without recognizable content\<close>

text \<open>
  C6, as amended. Take an input whose normalized text is empty, or matches no pattern of
  any category, and whose similarity to every category is zero, and a call that is
  computed rather than served from the cache. If the call does not use context, or the
  context of the user and session records no earlier category or the category unknown,
  the result is unknown with confidence 0 and some suggestions. If the call uses context
  and the context records an earlier category other than unknown, the result is that
  category with confidence 0.1, again with suggestions.
\<close>

theorem unrecognized_text_classification:
  assumes "cache_lookup clk (cache_key text user session) st = None"
      and "preprocess_text text = [] \<or>
           (\<forall>c. calculate_pattern_confidence (preprocess_text text) c = 0)"
      and "\<forall>c. calculate_similarity_confidence st (preprocess_text text) c = 0"
  shows "(\<not> uc \<or> prior_category st user session = None \<or>
          prior_category st user session = Some UNKNOWN \<longrightarrow>
            category (fst (classify_command clk text user session uc st)) = UNKNOWN \<and>
            confidence (fst (classify_command clk text user session uc st)) = 0 \<and>
            suggestions (fst (classify_command clk text user session uc st)) \<noteq> []) \<and>
         (\<forall>c0. uc \<and> prior_category st user session = Some c0 \<and> c0 \<noteq> UNKNOWN \<longrightarrow>
            category (fst (classify_command clk text user session uc st)) = c0 \<and>
            confidence (fst (classify_command clk text user session uc st)) = 0.1 \<and>
            suggestions (fst (classify_command clk text user session uc st)) \<noteq> [])"
proof -
  let ?n = "preprocess_text text"
  let ?ctx = "get_or_create_context clk user session st"
  have pat: "\<forall>c. calculate_pattern_confidence ?n c = 0"
    using assms(2) by (auto simp: empty_text_patterns)
  have last: "last_command_category ?ctx = prior_category st user session"
    by (rule prior_category_context)
  have 1: "\<not> uc \<or> prior_category st user session = None \<or>
           prior_category st user session = Some UNKNOWN \<Longrightarrow>
             best_match st ?n uc ?ctx = (UNKNOWN, 0, [])"
    using best_match_unrecognized[OF pat assms(3), of uc ?ctx] last by simp
  have 2: "uc \<Longrightarrow> prior_category st user session = Some c0 \<Longrightarrow> c0 \<noteq> UNKNOWN \<Longrightarrow>
             best_match st ?n uc ?ctx = (c0, 0.1, extract_parameters ?n c0)" for c0
    using best_match_context_only[OF pat assms(3), of uc ?ctx c0] last by simp
  show ?thesis
    using 1 2 by (auto simp: classify_computed[OF assms(1)] suggestions_nonempty)
qed

theorem unrecognized_text_classification_witness:
  "cache_lookup (clock_at 1700000000) (cache_key ''um'' ''u3'' ''s3'') classifier_init = None \<and>
   preprocess_text ''um'' = [] \<and>
   prior_category classifier_init ''u3'' ''s3'' = None \<and>
   category (fst (classify_command (clock_at 1700000000) ''um'' ''u3'' ''s3'' True classifier_init))
     = UNKNOWN \<and>
   confidence (fst (classify_command (clock_at 1700000000) ''um'' ''u3'' ''s3'' True classifier_init))
     = 0 \<and>
   suggestions (fst (classify_command (clock_at 1700000000) ''um'' ''u3'' ''s3'' True classifier_init))
     \<noteq> []"
proof -
  have sim: "\<forall>c. calculate_similarity_confidence classifier_init (preprocess_text ''um'') c = 0"
    by (simp add: similarity_unfitted fresh_vectorizer)
  have prior: "prior_category classifier_init ''u3'' ''s3'' = None"
    by (simp add: prior_category_def classifier_init_def)
  from unrecognized_text_classification[of "clock_at 1700000000" "''um''" "''u3''" "''s3''"
      classifier_init True, OF fresh_lookup disjI1[OF um_normalized] sim] prior
  show ?thesis by (simp add: fresh_lookup um_normalized)
qed

text \<open>
  The claim as stated, for any prior conversation context: after a greeting, a request
  that is a filler word only has an empty normalized text, and with use of context it is
  classified as general conversation with confidence 0.1.
\<close>

theorem filler_after_greeting_not_unknown:
  "normalized_text (fst filler_after_greeting) = [] \<and>
   category (fst filler_after_greeting) = GENERAL_CONVERSATION \<and>
   confidence (fst filler_after_greeting) = 0.1"
proof -
  have sim: "\<forall>c. calculate_similarity_confidence (snd greeting_first) [] c = 0"
    by (simp add: similarity_unfitted greeting_first_state)
  have pat: "\<forall>c. calculate_pattern_confidence [] c = 0"
    by (simp add: empty_text_patterns)
  have bm: "best_match (snd greeting_first) [] True
              (get_or_create_context (clock_at 1700000001) ''u'' ''s'' (snd greeting_first))
            = (GENERAL_CONVERSATION, 0.1, extract_parameters [] GENERAL_CONVERSATION)"
    by (rule best_match_context_only[OF pat sim _ greeting_first_prior]) simp_all
  have n: "normalized_text (fst filler_after_greeting) = []"
    unfolding filler_after_greeting_def using greeting_first_stale
    by (simp add: classify_command_def Let_def case_prod_beta um_normalized)
  show ?thesis
    unfolding filler_after_greeting_def
    using n by (simp add: classify_computed[OF greeting_first_stale] um_normalized bm
                  filler_after_greeting_def)
qed

section \<open>Confidence levels\<close>

text \<open>
  C7. The derived confidence level cuts the confidence range at 0.3, 0.5 and 0.8: a result
  is very-low exactly up to and including 0.3, low above 0.3 up to and including 0.5,
  medium above 0.5 up to and including 0.8, and high above 0.8. The four ranges are
  disjoint and cover every confidence value, so each value has exactly one level.
\<close>

theorem confidence_level_partition:
  "(confidence_level r = VERY_LOW \<longleftrightarrow> confidence r \<le> 0.3) \<and>
   (confidence_level r = LOW \<longleftrightarrow> 0.3 < confidence r \<and> confidence r \<le> 0.5) \<and>
   (confidence_level r = MEDIUM \<longleftrightarrow> 0.5 < confidence r \<and> confidence r \<le> 0.8) \<and>
   (confidence_level r = HIGH \<longleftrightarrow> 0.8 < confidence r)"
  by (simp add: confidence_level_def)

section \<open>Merged search results\<close>













section \<open>Token round trip\<close>





section \<open>Groups list connected clients only\<close>

lemma keys_dict_set:
  "map fst (dict_set d k v) = (if k \<in> set (map fst d) then map fst d else map fst d @ [k])"
  by (induction d k v rule: dict_set.induct) auto

lemma dict_has_set [simp]: "dict_has (dict_set d k v) k' \<longleftrightarrow> k' = k \<or> dict_has d k'"
  unfolding dict_has_def keys_dict_set by auto

lemma dict_has_del [simp]: "dict_has (dict_del d k) k' \<longleftrightarrow> k' \<noteq> k \<and> dict_has d k'"
  by (auto simp: dict_has_def dict_del_def)

lemma set_dict_set: "set (dict_set d k v) \<subseteq> insert (k, v) (set d)"
  by (induction d k v rule: dict_set.induct) auto

lemma dict_get_in: "dict_get d k = Some v \<Longrightarrow> (k, v) \<in> set d"
  by (simp add: dict_get_def map_of_SomeD)

lemma groups_connected_iff:
  "groups_connected m \<longleftrightarrow>
     (\<forall>g ms. (g, ms) \<in> set (connection_groups m) \<longrightarrow>
        (\<forall>c \<in> set ms. dict_has (active_connections m) c) \<and> distinct ms)"
  by (auto simp: groups_connected_def list_all_iff)

lemma disconnect_keeps: "groups_connected m \<Longrightarrow> groups_connected (disconnect cid m)"
  unfolding groups_connected_iff disconnect_def
  by (auto split: if_splits)

lemma disconnect_removes:
  assumes "groups_connected m"
  shows "\<not> dict_has (active_connections (disconnect cid m)) cid"
    and "(g, ms) \<in> set (connection_groups (disconnect cid m)) \<Longrightarrow> cid \<notin> set ms"
proof -
  show "\<not> dict_has (active_connections (disconnect cid m)) cid"
    by (simp add: disconnect_def)
  assume "(g, ms) \<in> set (connection_groups (disconnect cid m))"
  then show "cid \<notin> set ms"
    using assms unfolding groups_connected_iff disconnect_def
    by (auto split: if_splits)
qed

lemma registry_update_keeps:
  "groups_connected m \<Longrightarrow>
   groups_connected (m\<lparr>active_connections := dict_set (active_connections m) cid c\<rparr>)"
  by (auto simp: groups_connected_iff)

lemma send_keeps: "groups_connected m \<Longrightarrow> groups_connected (snd (send_personal_message ok now cid m))"
  by (auto simp: send_personal_message_def registry_update_keeps disconnect_keeps split: option.split)

lemma connect_keeps:
  assumes "groups_connected m"
  shows "groups_connected (snd (connect a s now cid m))"
proof (cases a)
  case False
  then show ?thesis using assms by (simp add: connect_def)
next
  case True
  let ?m1 = "m\<lparr>active_connections := dict_set (active_connections m) cid
      \<lparr>client_id = cid, connected_at = now, last_activity = now,
       message_count = 0, is_active = True, metadata = []\<rparr>\<rparr>"
  have "groups_connected (snd (send_personal_message s now cid ?m1))"
    by (rule send_keeps[OF registry_update_keeps[OF assms]])
  then show ?thesis using True by (simp add: connect_def Let_def case_prod_beta)
qed

lemma groups_update_keeps:
  assumes "groups_connected m" and "\<forall>c \<in> set ms. dict_has (active_connections m) c" and "distinct ms"
  shows "groups_connected (m\<lparr>connection_groups := dict_set (connection_groups m) g ms\<rparr>)"
  using assms set_dict_set[of "connection_groups m" g ms]
  unfolding groups_connected_iff by auto

lemma add_to_group_keeps:
  assumes "groups_connected m"
  shows "groups_connected (snd (add_to_group cid g m))"
proof (cases "dict_has (active_connections m) cid")
  case False
  then show ?thesis using assms by (simp add: add_to_group_def)
next
  case True
  define groups where "groups = (if dict_has (connection_groups m) g then connection_groups m
                 else dict_set (connection_groups m) g [])"
  define members where "members = (case dict_get groups g of None \<Rightarrow> [] | Some ms \<Rightarrow> ms)"
  have eq: "add_to_group cid g m =
      (True, m\<lparr>connection_groups :=
                 (if cid \<in> set members then groups else dict_set groups g (members @ [cid]))\<rparr>)"
    unfolding add_to_group_def Let_def groups_def members_def using True
    by (simp only: simp_thms if_False)
  have g1: "groups_connected (m\<lparr>connection_groups := groups\<rparr>)"
    using groups_update_keeps[OF assms, of "[]" g] assms by (cases m) (auto simp: groups_def)
  have mem: "(\<forall>c \<in> set members. dict_has (active_connections m) c) \<and> distinct members"
  proof (cases "dict_get groups g")
    case None then show ?thesis by (simp add: members_def)
  next
    case (Some ms)
    then have "(g, ms) \<in> set groups" by (rule dict_get_in)
    with g1 Some show ?thesis unfolding groups_connected_iff by (auto simp: members_def)
  qed
  show ?thesis
  proof (cases "cid \<in> set members")
    case True
    then show ?thesis using g1 by (simp add: eq)
  next
    case False
    have "groups_connected ((m\<lparr>connection_groups := groups\<rparr>)
             \<lparr>connection_groups := dict_set (connection_groups (m\<lparr>connection_groups := groups\<rparr>)) g (members @ [cid])\<rparr>)"
      by (rule groups_update_keeps[OF g1]) (use mem False True in auto)
    then show ?thesis using False by (simp add: eq)
  qed
qed

lemma remove_from_group_keeps:
  assumes "groups_connected m"
  shows "groups_connected (remove_from_group cid g m)"
proof (cases "dict_get (connection_groups m) g")
  case None
  then show ?thesis using assms by (simp add: remove_from_group_def)
next
  case (Some ms)
  then have "(g, ms) \<in> set (connection_groups m)" by (rule dict_get_in)
  with assms have ms: "\<forall>c \<in> set ms. dict_has (active_connections m) c" "distinct ms"
    unfolding groups_connected_iff by auto
  have "groups_connected (m\<lparr>connection_groups := dict_set (connection_groups m) g (remove1 cid ms)\<rparr>)"
    by (rule groups_update_keeps[OF assms]) (use ms in \<open>auto dest: notin_set_remove1\<close>)
  then show ?thesis using Some assms by (simp add: remove_from_group_def)
qed

lemma send_each_keeps:
  "groups_connected m \<Longrightarrow> groups_connected (snd (send_each oks now cids m))"
proof (induction cids arbitrary: m)
  case Nil
  then show ?case by simp
next
  case (Cons cid cids)
  from Cons.IH[OF send_keeps[OF Cons.prems, of "oks cid" now cid]]
  show ?case by (simp add: Let_def case_prod_beta)
qed

lemma shutdown_each_keeps:
  "groups_connected m \<Longrightarrow> groups_connected (shutdown_each oks now cids m)"
proof (induction cids arbitrary: m)
  case Nil
  then show ?case by simp
next
  case (Cons cid cids)
  show ?case
    by (simp, rule Cons.IH, rule disconnect_keeps, rule send_keeps, rule Cons.prems)
qed

lemma disconnect_all_keeps:
  "groups_connected m \<Longrightarrow> groups_connected (foldl (\<lambda>acc cid. disconnect cid acc) m cids)"
  by (induction cids arbitrary: m) (auto intro: disconnect_keeps)

lemma ws_step_keeps: "groups_connected m \<Longrightarrow> groups_connected (ws_step m op)"
  by (cases op)
     (auto simp: connect_keeps disconnect_keeps send_keeps add_to_group_keeps
        remove_from_group_keeps broadcast_message_def send_each_keeps send_to_group_def
        shutdown_def shutdown_each_keeps cleanup_inactive_connections_def Let_def
        disconnect_all_keeps split: option.split)

lemma ws_fold_keeps: "groups_connected m \<Longrightarrow> groups_connected (foldl ws_step m ops)"
  by (induction ops arbitrary: m) (auto intro: ws_step_keeps)

lemma ws_run_connected: "groups_connected (ws_run ops)"
  unfolding ws_run_def by (rule ws_fold_keeps) (simp add: groups_connected_def manager_init_def)

lemma add_to_group_refused:
  "\<not> dict_has (active_connections m) cid \<Longrightarrow> add_to_group cid g m = (False, m)"
  by (simp add: add_to_group_def)

lemma failed_send_removes:
  assumes "groups_connected m"
      and "(g, ms) \<in> set (connection_groups (snd (send_personal_message False now cid m)))"
  shows "cid \<notin> set ms"
proof (cases "dict_get (active_connections m) cid")
  case None
  then have "\<not> dict_has (active_connections m) cid"
    by (simp add: dict_get_def dict_has_def map_of_eq_None_iff)
  moreover have "(g, ms) \<in> set (connection_groups m)"
    using assms(2) None by (simp add: send_personal_message_def)
  ultimately show ?thesis using assms(1) unfolding groups_connected_iff by blast
next
  case (Some c)
  let ?m1 = "m\<lparr>active_connections := dict_set (active_connections m) cid (c\<lparr>is_active := False\<rparr>)\<rparr>"
  have "(g, ms) \<in> set (connection_groups (disconnect cid ?m1))"
    using assms(2) Some by (simp add: send_personal_message_def)
  then show ?thesis
    by (rule disconnect_removes(2)[OF registry_update_keeps[OF assms(1)]])
qed

text \<open>
  C10. After any sequence of connect, disconnect, send, broadcast, group send, add-to-group,
  remove-from-group, shutdown and janitor operations, started from the empty manager,
  every client listed in any group is a key of the registry of active connections. In
  such a state adding an unconnected client to a group is refused and changes nothing,
  and after a disconnect or a failed send to a client no group lists that client.
\<close>

theorem group_members_are_connected:
  "(\<forall>g ms c. (g, ms) \<in> set (connection_groups (ws_run ops)) \<and> c \<in> set ms \<longrightarrow>
       dict_has (active_connections (ws_run ops)) c) \<and>
   (\<forall>cid g. \<not> dict_has (active_connections (ws_run ops)) cid \<longrightarrow>
       add_to_group cid g (ws_run ops) = (False, ws_run ops)) \<and>
   (\<forall>cid g ms. (g, ms) \<in> set (connection_groups (disconnect cid (ws_run ops))) \<longrightarrow>
       cid \<notin> set ms) \<and>
   (\<forall>cid now g ms.
       (g, ms) \<in> set (connection_groups (snd (send_personal_message False now cid (ws_run ops)))) \<longrightarrow>
       cid \<notin> set ms)"
proof -
  have inv: "groups_connected (ws_run ops)" by (rule ws_run_connected)
  have 1: "\<forall>g ms c. (g, ms) \<in> set (connection_groups (ws_run ops)) \<and> c \<in> set ms \<longrightarrow>
       dict_has (active_connections (ws_run ops)) c"
    using inv unfolding groups_connected_iff by blast
  have 2: "\<forall>cid g. \<not> dict_has (active_connections (ws_run ops)) cid \<longrightarrow>
       add_to_group cid g (ws_run ops) = (False, ws_run ops)"
    by (simp add: add_to_group_refused)
  have 3: "\<forall>cid g ms. (g, ms) \<in> set (connection_groups (disconnect cid (ws_run ops))) \<longrightarrow>
       cid \<notin> set ms"
    using disconnect_removes(2)[OF inv] by blast
  have 4: "\<forall>cid now g ms.
       (g, ms) \<in> set (connection_groups (snd (send_personal_message False now cid (ws_run ops)))) \<longrightarrow>
       cid \<notin> set ms"
    using failed_send_removes[OF inv] by blast
  from 1 2 3 4 show ?thesis by blast
qed

lemma session_ops_groups: "connection_groups (ws_run session_ops) = [(''team'', [''a''])]"
  by (simp add: session_ops_def ws_run_def manager_init_def connect_def send_personal_message_def
        add_to_group_def disconnect_def dict_get_def dict_has_def dict_del_def Let_def)

theorem group_members_are_connected_witness:
  "(''team'', [''a'']) \<in> set (connection_groups (ws_run session_ops)) \<and>
   dict_has (active_connections (ws_run session_ops)) ''a'' \<and>
   \<not> dict_has (active_connections (ws_run session_ops)) ''b'' \<and>
   add_to_group ''b'' ''team'' (ws_run session_ops) = (False, ws_run session_ops)"
proof -
  have g: "(''team'', [''a'']) \<in> set (connection_groups (ws_run session_ops))"
    by (simp add: session_ops_groups)
  have b: "\<not> dict_has (active_connections (ws_run session_ops)) ''b''"
    by (simp add: session_ops_def ws_run_def manager_init_def connect_def send_personal_message_def
        add_to_group_def disconnect_def dict_get_def dict_has_def dict_del_def Let_def)
  have a: "''a'' \<in> set [''a'']" by simp
  from group_members_are_connected[of session_ops] g a
  have "dict_has (active_connections (ws_run session_ops)) ''a''" by blast
  moreover from group_members_are_connected[of session_ops] b
  have "add_to_group ''b'' ''team'' (ws_run session_ops) = (False, ws_run session_ops)" by blast
  ultimately show ?thesis using g b by simp
qed

end
